theory Spec2Isabelle
  imports Complex_Main
begin

section \<open>MLP-Mixer (image_classification/MLP-Mixer/mlp_mixer.py)\<close>

text \<open>
  The module composes layers of the tensor framework into the MLP-Mixer network. The
  embedding keeps the module's classes as records, their constructors (\<open>__init__\<close>) as
  \<open>_init\<close> functions and their \<open>forward\<close> methods as \<open>_forward\<close> functions.

  \<^item> Tensors are nested lists of reals: Python floats are idealised as real numbers, so
    every statement about values is a statement in exact arithmetic.
  \<^item> Python integers are \<open>int\<close>; \<open>//\<close> raises on a zero divisor and \<open>int(_)\<close> of a
    float truncates towards zero.
  \<^item> Every exception is a value \<open>Inl e\<close> of the result type.
  \<^item> The random generator of the framework (parameter initialisation, dropout masks) is
    an explicit state \<open>'g\<close> that is passed along in the order of the calls.
\<close>

subsection \<open>Tensors, errors, results\<close>

type_synonym vec = "real list"
type_synonym mat = "real list list"
type_synonym tensor3 = "real list list list"
type_synonym tensor4 = "real list list list list"

datatype error = ZeroDivisionError | FrameworkError

definition rbind :: "error + 'a \<Rightarrow> ('a \<Rightarrow> error + 'b) \<Rightarrow> error + 'b" where
  "rbind r f = (case r of Inl e \<Rightarrow> Inl e | Inr v \<Rightarrow> f v)"

definition shape2 :: "nat \<Rightarrow> nat \<Rightarrow> 'a list list \<Rightarrow> bool" where
  "shape2 n m x \<longleftrightarrow> length x = n \<and> (\<forall>r\<in>set x. length r = m)"

definition shape3 :: "nat \<Rightarrow> nat \<Rightarrow> nat \<Rightarrow> 'a list list list \<Rightarrow> bool" where
  "shape3 b n m x \<longleftrightarrow> length x = b \<and> (\<forall>s\<in>set x. shape2 n m s)"

definition shape4 :: "nat \<Rightarrow> nat \<Rightarrow> nat \<Rightarrow> nat \<Rightarrow> 'a list list list list \<Rightarrow> bool" where
  "shape4 b c h w x \<longleftrightarrow> length x = b \<and> (\<forall>s\<in>set x. shape3 c h w s)"

text \<open>Python's \<open>a // b\<close> and \<open>int(r)\<close>.\<close>

definition py_floordiv :: "int \<Rightarrow> int \<Rightarrow> error + int" where
  "py_floordiv a b = (if b = 0 then Inl ZeroDivisionError else Inr (a div b))"

definition py_int :: "real \<Rightarrow> int" where
  "py_int r = (if 0 \<le> r then \<lfloor>r\<rfloor> else \<lceil>r\<rceil>)"

subsection \<open>The framework: initialisers, random source, opaque operations\<close>

datatype initializer = XavierUniform | Normal real real | Constant real

record ParamAttr =
  initializer :: initializer

text \<open>
  What the module takes from outside and never defines: the GELU function, the dropout
  operation of \<open>nn.Dropout\<close>, the random draw of an initialiser, and the operation of
  \<open>DropPath\<close> (imported from \<open>droppath\<close>, a file of the repository that is not part of
  the sources at hand). The stochastic ones take and return the generator state and may
  raise.
\<close>

record 'g framework =
  gelu :: "real \<Rightarrow> real"
  dropout_fn :: "real \<Rightarrow> tensor3 \<Rightarrow> 'g \<Rightarrow> error + (tensor3 \<times> 'g)"
  drop_path_fn :: "real \<Rightarrow> tensor3 \<Rightarrow> 'g \<Rightarrow> error + (tensor3 \<times> 'g)"
  random_fn :: "initializer \<Rightarrow> nat list \<Rightarrow> 'g \<Rightarrow> real \<times> 'g"

text \<open>
  Creating a parameter of a given shape draws its entries one after the other. A
  \<open>Constant\<close> initialiser is deterministic; the others draw from the generator.
\<close>

definition draw :: "'g framework \<Rightarrow> initializer \<Rightarrow> nat list \<Rightarrow> 'g \<Rightarrow> real \<times> 'g" where
  "draw env ini shp g = (case ini of Constant c \<Rightarrow> (c, g) | _ \<Rightarrow> random_fn env ini shp g)"

fun draw_list :: "('g \<Rightarrow> 'a \<times> 'g) \<Rightarrow> nat \<Rightarrow> 'g \<Rightarrow> 'a list \<times> 'g" where
  "draw_list f 0 g = ([], g)"
| "draw_list f (Suc n) g =
     (let (a, g1) = f g; (as, g2) = draw_list f n g1 in (a # as, g2))"

definition create_parameter1 ::
  "'g framework \<Rightarrow> initializer \<Rightarrow> nat \<Rightarrow> 'g \<Rightarrow> vec \<times> 'g" where
  "create_parameter1 env ini n = draw_list (draw env ini [n]) n"

definition create_parameter2 ::
  "'g framework \<Rightarrow> initializer \<Rightarrow> nat \<Rightarrow> nat \<Rightarrow> 'g \<Rightarrow> mat \<times> 'g" where
  "create_parameter2 env ini n m = draw_list (draw_list (draw env ini [n, m]) m) n"

definition create_parameter4 ::
  "'g framework \<Rightarrow> initializer \<Rightarrow> nat \<Rightarrow> nat \<Rightarrow> nat \<Rightarrow> nat \<Rightarrow> 'g \<Rightarrow> tensor4 \<times> 'g" where
  "create_parameter4 env ini a b c d =
     draw_list (draw_list (draw_list (draw_list (draw env ini [a, b, c, d]) d) c) b) a"

subsection \<open>Framework layers: \<open>nn.Linear\<close>, \<open>nn.LayerNorm\<close>, \<open>nn.Conv2D\<close>, \<open>nn.Dropout\<close>, \<open>nn.GELU\<close>\<close>

text \<open>
  \<open>nn.Linear(in_features, out_features, weight_attr, bias_attr)\<close>: the weight has shape
  \<open>[in_features, out_features]\<close>, the output is \<open>x @ weight + bias\<close> on the last axis.
  A missing attribute means the framework's default initialiser: Xavier-uniform for the
  weight and the constant zero for the bias. The framework refuses a parameter with a
  dimension that is not positive.
\<close>

record Linear =
  in_features :: int
  out_features :: int
  weight_attr :: "ParamAttr option"
  bias_attr :: "ParamAttr option"
  weight :: mat
  bias :: vec

definition weight_initializer :: "ParamAttr option \<Rightarrow> initializer" where
  "weight_initializer a = (case a of None \<Rightarrow> XavierUniform | Some pa \<Rightarrow> initializer pa)"

definition bias_initializer :: "ParamAttr option \<Rightarrow> initializer" where
  "bias_initializer a = (case a of None \<Rightarrow> Constant 0 | Some pa \<Rightarrow> initializer pa)"

definition Linear_init ::
  "'g framework \<Rightarrow> int \<Rightarrow> int \<Rightarrow> ParamAttr option \<Rightarrow> ParamAttr option \<Rightarrow> 'g
     \<Rightarrow> error + (Linear \<times> 'g)" where
  "Linear_init env in_f out_f w_attr b_attr g =
     (if in_f \<le> 0 \<or> out_f \<le> 0 then Inl FrameworkError
      else
        let (w, g) = create_parameter2 env (weight_initializer w_attr) (nat in_f) (nat out_f) g;
            (b, g) = create_parameter1 env (bias_initializer b_attr) (nat out_f) g
        in Inr (\<lparr>in_features = in_f, out_features = out_f,
                  weight_attr = w_attr, bias_attr = b_attr,
                  Linear.weight = w, Linear.bias = b\<rparr>, g))"

definition dot :: "vec \<Rightarrow> vec \<Rightarrow> real" where
  "dot v w = sum_list (map2 (*) v w)"

definition column :: "mat \<Rightarrow> nat \<Rightarrow> vec" where
  "column w j = map (\<lambda>row. row ! j) w"

definition affine :: "mat \<Rightarrow> vec \<Rightarrow> vec \<Rightarrow> vec" where
  "affine w b v = map (\<lambda>j. dot v (column w j) + b ! j) [0..<length b]"

definition linear_vec :: "Linear \<Rightarrow> vec \<Rightarrow> vec" where
  "linear_vec l v = affine (Linear.weight l) (Linear.bias l) v"

definition Linear_forward2 :: "Linear \<Rightarrow> mat \<Rightarrow> error + mat" where
  "Linear_forward2 l x =
     (if \<forall>v\<in>set x. int (length v) = in_features l
      then Inr (map (linear_vec l) x) else Inl FrameworkError)"

definition Linear_forward :: "Linear \<Rightarrow> tensor3 \<Rightarrow> error + tensor3" where
  "Linear_forward l x =
     (if \<forall>m\<in>set x. \<forall>v\<in>set m. int (length v) = in_features l
      then Inr (map (map (linear_vec l)) x) else Inl FrameworkError)"

text \<open>
  \<open>nn.LayerNorm(normalized_shape, epsilon)\<close> normalises the last axis: mean and (biased)
  variance of the vector, then scale and shift. Scale and shift start as ones and zeros;
  as for every parameter, a dimension that is not positive is refused. An input whose
  last axis is not \<open>normalized_shape\<close> long is refused.
\<close>

record LayerNorm =
  normalized_shape :: int
  epsilon :: real
  weight :: vec
  bias :: vec

definition LayerNorm_init :: "int \<Rightarrow> real \<Rightarrow> error + LayerNorm" where
  "LayerNorm_init dm eps =
     (if dm \<le> 0 then Inl FrameworkError
      else Inr \<lparr>normalized_shape = dm, epsilon = eps,
                LayerNorm.weight = replicate (nat dm) 1,
                LayerNorm.bias = replicate (nat dm) 0\<rparr>)"

definition layer_norm_vec :: "LayerNorm \<Rightarrow> vec \<Rightarrow> vec" where
  "layer_norm_vec nl v =
     (let n = real (length v);
          mean = sum_list v / n;
          var = sum_list (map (\<lambda>a. (a - mean)\<^sup>2) v) / n
      in map (\<lambda>i. (v ! i - mean) / sqrt (var + epsilon nl) * LayerNorm.weight nl ! i
                   + LayerNorm.bias nl ! i) [0..<length v])"

definition LayerNorm_forward :: "LayerNorm \<Rightarrow> tensor3 \<Rightarrow> error + tensor3" where
  "LayerNorm_forward nl x =
     (if \<forall>m\<in>set x. \<forall>v\<in>set m. int (length v) = normalized_shape nl
      then Inr (map (map (layer_norm_vec nl)) x) else Inl FrameworkError)"

text \<open>\<open>nn.Dropout(p)\<close> and \<open>nn.GELU()\<close>.\<close>

record Dropout =
  p :: real

definition Dropout_forward ::
  "'g framework \<Rightarrow> Dropout \<Rightarrow> tensor3 \<Rightarrow> 'g \<Rightarrow> error + (tensor3 \<times> 'g)" where
  "Dropout_forward env d x g = dropout_fn env (p d) x g"

datatype activation = GELU

definition activation_forward :: "'g framework \<Rightarrow> activation \<Rightarrow> tensor3 \<Rightarrow> tensor3" where
  "activation_forward env a x = (case a of GELU \<Rightarrow> map (map (map (gelu env))) x)"

text \<open>
  Modelled from the spec: \<open>DropPath\<close> (stochastic depth), whose class lives in the
  repository's \<open>droppath\<close> module. The layer keeps its rate; what it does to a tensor is
  the operation \<open>drop_path_fn\<close> of the framework record.
\<close>

record DropPath =
  drop_prob :: real

definition DropPath_forward ::
  "'g framework \<Rightarrow> DropPath \<Rightarrow> tensor3 \<Rightarrow> 'g \<Rightarrow> error + (tensor3 \<times> 'g)" where
  "DropPath_forward env d x g = drop_path_fn env (drop_prob d) x g"

text \<open>
  Tensor operations used by the module: \<open>x.transpose([0, 2, 1])\<close>, \<open>x + h\<close>,
  \<open>x.flatten(start_axis=2, stop_axis=-1)\<close> and \<open>x.mean(axis=1)\<close>. A nested list does
  not record the length of an axis below an empty one, so the transpose is the tensor's
  only for positive dimensions; these are the only ones a constructed layer has. The
  module adds tensors of one shape only (a residual and the branch computed from it);
  the model of \<open>+\<close> refuses operands of different shapes and leaves broadcasting out.
\<close>

definition transpose_mat :: "'a list list \<Rightarrow> 'a list list" where
  "transpose_mat m =
     (case m of [] \<Rightarrow> [] | r # _ \<Rightarrow> map (\<lambda>j. map (\<lambda>row. row ! j) m) [0..<length r])"

definition transpose021 :: "tensor3 \<Rightarrow> tensor3" where
  "transpose021 x = map transpose_mat x"

definition same_shape :: "tensor3 \<Rightarrow> tensor3 \<Rightarrow> bool" where
  "same_shape x y \<longleftrightarrow> map (map length) x = map (map length) y"

definition add :: "tensor3 \<Rightarrow> tensor3 \<Rightarrow> error + tensor3" where
  "add x y =
     (if same_shape x y then Inr (map2 (map2 (map2 (+))) x y) else Inl FrameworkError)"

definition flatten2 :: "tensor4 \<Rightarrow> tensor3" where
  "flatten2 x = map (map concat) x"

definition mean_axis1 :: "tensor3 \<Rightarrow> mat" where
  "mean_axis1 x = map (\<lambda>m. map (\<lambda>col. sum_list col / real (length col)) (transpose_mat m)) x"

text \<open>
  \<open>nn.Conv2D(in_channels, out_channels, kernel_size, stride)\<close>, no padding, no dilation,
  one group: the weight has shape \<open>[out_channels, in_channels, kh, kw]\<close>; the output at
  \<open>(o, i, j)\<close> is the bias of \<open>o\<close> plus the sum, over the input channels and the kernel
  rows, of the products of the input window at \<open>(i * sh, j * sw)\<close> with the kernel. The
  output has \<open>(H - kh) div sh + 1\<close> rows; an input smaller than the kernel is outside the
  operation's domain and is refused, as is a parameter with a dimension that is not
  positive. The default initialisers are a normal distribution for the weight and zero
  for the bias.
\<close>

record Conv2D =
  in_channels :: int
  out_channels :: int
  kernel_size :: "int \<times> int"
  stride :: "int \<times> int"
  weight :: tensor4
  bias :: vec

definition Conv2D_init ::
  "'g framework \<Rightarrow> int \<Rightarrow> int \<Rightarrow> int \<times> int \<Rightarrow> int \<times> int \<Rightarrow> 'g \<Rightarrow> error + (Conv2D \<times> 'g)" where
  "Conv2D_init env in_c out_c ks st g =
     (let (kh, kw) = ks; (sh, sw) = st in
      if in_c \<le> 0 \<or> out_c \<le> 0 \<or> kh \<le> 0 \<or> kw \<le> 0 \<or> sh \<le> 0 \<or> sw \<le> 0
      then Inl FrameworkError
      else
        let (w, g) = create_parameter4 env
                       (Normal 0 (sqrt (2 / real_of_int (kh * kw * in_c))))
                       (nat out_c) (nat in_c) (nat kh) (nat kw) g;
            (b, g) = create_parameter1 env (Constant 0) (nat out_c) g
        in Inr (\<lparr>Conv2D.in_channels = in_c, out_channels = out_c,
                  kernel_size = ks, stride = st,
                  Conv2D.weight = w, Conv2D.bias = b\<rparr>, g))"

definition conv2d_at :: "Conv2D \<Rightarrow> real list list list \<Rightarrow> nat \<Rightarrow> nat \<Rightarrow> nat \<Rightarrow> real" where
  "conv2d_at cv img oc i j =
     (let kh = nat (fst (kernel_size cv)); kw = nat (snd (kernel_size cv));
          sh = nat (fst (stride cv)); sw = nat (snd (stride cv))
      in (\<Sum>c\<leftarrow>[0..<nat (Conv2D.in_channels cv)]. \<Sum>u\<leftarrow>[0..<kh].
            dot (take kw (drop (j * sw) (img ! c ! (i * sh + u)))) (Conv2D.weight cv ! oc ! c ! u))
         + Conv2D.bias cv ! oc)"

definition conv2d_image :: "Conv2D \<Rightarrow> real list list list \<Rightarrow> real list list list" where
  "conv2d_image cv img =
     (let kh = nat (fst (kernel_size cv)); kw = nat (snd (kernel_size cv));
          sh = nat (fst (stride cv)); sw = nat (snd (stride cv));
          H = length (hd img); W = length (hd (hd img));
          oh = (H - kh) div sh + 1; ow = (W - kw) div sw + 1
      in map (\<lambda>oc. map (\<lambda>i. map (\<lambda>j. conv2d_at cv img oc i j) [0..<ow]) [0..<oh])
           [0..<nat (out_channels cv)])"

definition conv_input_ok :: "Conv2D \<Rightarrow> real list list list \<Rightarrow> bool" where
  "conv_input_ok cv img \<longleftrightarrow>
     img \<noteq> [] \<and> int (length img) = Conv2D.in_channels cv \<and> hd img \<noteq> [] \<and>
     (\<forall>ch\<in>set img. shape2 (length (hd img)) (length (hd (hd img))) ch) \<and>
     fst (kernel_size cv) \<le> int (length (hd img)) \<and>
     snd (kernel_size cv) \<le> int (length (hd (hd img)))"

definition Conv2D_forward :: "Conv2D \<Rightarrow> tensor4 \<Rightarrow> error + tensor4" where
  "Conv2D_forward cv x =
     (if \<forall>img\<in>set x. conv_input_ok cv img
      then Inr (map (conv2d_image cv) x) else Inl FrameworkError)"

subsection \<open>\<open>Identity\<close> and \<open>PatchEmbedding\<close>\<close>

text \<open>
  The \<open>norm\<close> attribute of a patch embedding is the given layer normalisation or an
  \<open>Identity\<close> layer, whose \<open>forward\<close> returns its input.
\<close>

datatype norm_layer = Identity | Norm LayerNorm

definition norm_layer_forward :: "norm_layer \<Rightarrow> tensor3 \<Rightarrow> error + tensor3" where
  "norm_layer_forward l x = (case l of Identity \<Rightarrow> Inr x | Norm nl \<Rightarrow> LayerNorm_forward nl x)"

record PatchEmbedding =
  image_size :: "int \<times> int"
  patch_size :: "int \<times> int"
  patches_resolution :: "int list"
  num_patches :: int
  in_channels :: int
  embed_dim :: int
  patch_embed :: Conv2D
  norm :: norm_layer

definition PatchEmbedding_init ::
  "'g framework \<Rightarrow> int \<Rightarrow> int \<Rightarrow> int \<Rightarrow> int \<Rightarrow> LayerNorm option \<Rightarrow> 'g
     \<Rightarrow> error + (PatchEmbedding \<times> 'g)" where
  "PatchEmbedding_init env image_size' patch_size' in_channels' embed_dim' norm_layer' g =
     (let image_size' = (image_size', image_size');
          patch_size' = (patch_size', patch_size') in
      rbind (py_floordiv (fst image_size') (fst patch_size')) (\<lambda>r0.
      rbind (py_floordiv (snd image_size') (snd patch_size')) (\<lambda>r1.
      let patches_resolution' = [r0, r1] in
      rbind (Conv2D_init env in_channels' embed_dim' patch_size' patch_size' g) (\<lambda>(conv, g).
      Inr (\<lparr>image_size = image_size',
             patch_size = patch_size',
             patches_resolution = patches_resolution',
             num_patches = patches_resolution' ! 0 * patches_resolution' ! 1,
             PatchEmbedding.in_channels = in_channels',
             embed_dim = embed_dim',
             patch_embed = conv,
             norm = (case norm_layer' of None \<Rightarrow> Identity | Some nl \<Rightarrow> Norm nl)\<rparr>, g)))))"

definition PatchEmbedding_forward :: "PatchEmbedding \<Rightarrow> tensor4 \<Rightarrow> error + tensor3" where
  "PatchEmbedding_forward pe x =
     rbind (Conv2D_forward (patch_embed pe) x) (\<lambda>x.
     let x = flatten2 x;
         x = transpose021 x
     in norm_layer_forward (norm pe) x)"

subsection \<open>\<open>Mlp\<close>\<close>

record Mlp =
  fc1 :: Linear
  fc2 :: Linear
  act :: activation
  dropout :: Dropout

definition Mlp_init_weights :: "ParamAttr \<times> ParamAttr" where
  "Mlp_init_weights =
     (let weight_attr' = \<lparr>initializer = XavierUniform\<rparr>;
          bias_attr' = \<lparr>initializer = Normal 0 (1 / 10 ^ 6)\<rparr>
      in (weight_attr', bias_attr'))"

definition Mlp_init ::
  "'g framework \<Rightarrow> int \<Rightarrow> int \<Rightarrow> real \<Rightarrow> 'g \<Rightarrow> error + (Mlp \<times> 'g)" where
  "Mlp_init env in_features' hidden_features dropout' g =
     (let (w_attr_1, b_attr_1) = Mlp_init_weights in
      rbind (Linear_init env in_features' hidden_features (Some w_attr_1) (Some b_attr_1) g)
        (\<lambda>(fc1', g).
      let (w_attr_2, b_attr_2) = Mlp_init_weights in
      rbind (Linear_init env hidden_features in_features' (Some w_attr_2) (Some b_attr_2) g)
        (\<lambda>(fc2', g).
      Inr (\<lparr>fc1 = fc1', fc2 = fc2', act = GELU, dropout = \<lparr>p = dropout'\<rparr>\<rparr>, g))))"

definition Mlp_forward ::
  "'g framework \<Rightarrow> Mlp \<Rightarrow> tensor3 \<Rightarrow> 'g \<Rightarrow> error + (tensor3 \<times> 'g)" where
  "Mlp_forward env m x g =
     rbind (Linear_forward (fc1 m) x) (\<lambda>x.
     let x = activation_forward env (act m) x in
     rbind (Dropout_forward env (dropout m) x g) (\<lambda>(x, g).
     rbind (Linear_forward (fc2 m) x) (\<lambda>x.
     Dropout_forward env (dropout m) x g)))"

subsection \<open>\<open>MixerBlock\<close>\<close>

record MixerBlock =
  norm1 :: LayerNorm
  mlp_tokens :: Mlp
  drop_path :: DropPath
  norm2 :: LayerNorm
  mlp_channels :: Mlp

definition MixerBlock_init ::
  "'g framework \<Rightarrow> int \<Rightarrow> int \<Rightarrow> real \<times> real \<Rightarrow> real \<Rightarrow> real \<Rightarrow> 'g
     \<Rightarrow> error + (MixerBlock \<times> 'g)" where
  "MixerBlock_init env dm seq_len mlp_ratio' dropout' droppath' g =
     (let tokens_dim = py_int (fst mlp_ratio' * real_of_int dm);
          channels_dim = py_int (snd mlp_ratio' * real_of_int dm) in
      rbind (LayerNorm_init dm (1 / 10 ^ 6)) (\<lambda>norm1'.
      rbind (Mlp_init env seq_len tokens_dim dropout' g) (\<lambda>(mlp_tokens', g).
      let drop_path' = \<lparr>drop_prob = droppath'\<rparr> in
      rbind (LayerNorm_init dm (1 / 10 ^ 6)) (\<lambda>norm2'.
      rbind (Mlp_init env dm channels_dim dropout' g) (\<lambda>(mlp_channels', g).
      Inr (\<lparr>norm1 = norm1', mlp_tokens = mlp_tokens', drop_path = drop_path',
             norm2 = norm2', mlp_channels = mlp_channels'\<rparr>, g))))))"

definition MixerBlock_forward ::
  "'g framework \<Rightarrow> MixerBlock \<Rightarrow> tensor3 \<Rightarrow> 'g \<Rightarrow> error + (tensor3 \<times> 'g)" where
  "MixerBlock_forward env blk x g =
     (let h = x in
      rbind (LayerNorm_forward (norm1 blk) x) (\<lambda>x.
      let x = transpose021 x in
      rbind (Mlp_forward env (mlp_tokens blk) x g) (\<lambda>(x, g).
      let x = transpose021 x in
      rbind (DropPath_forward env (drop_path blk) x g) (\<lambda>(x, g).
      rbind (add x h) (\<lambda>x.
      let h = x in
      rbind (LayerNorm_forward (norm2 blk) x) (\<lambda>x.
      rbind (Mlp_forward env (mlp_channels blk) x g) (\<lambda>(x, g).
      rbind (DropPath_forward env (drop_path blk) x g) (\<lambda>(x, g).
      rbind (add x h) (\<lambda>x.
      Inr (x, g))))))))))"

subsection \<open>\<open>MlpMixer\<close>\<close>

text \<open>
  The constructor's keyword arguments, with the defaults of its signature. A caller
  that leaves an argument out gets the default.
\<close>

record MlpMixer_args =
  num_classes :: int
  image_size :: int
  in_channels :: int
  patch_size :: int
  num_mixer_layers :: int
  embed_dim :: int
  mlp_ratio :: "real \<times> real"
  dropout :: real
  droppath :: real
  patch_embed_norm :: bool

definition MlpMixer_defaults :: MlpMixer_args where
  "MlpMixer_defaults =
     \<lparr>MlpMixer_args.num_classes = 1000,
      MlpMixer_args.image_size = 224,
      MlpMixer_args.in_channels = 3,
      MlpMixer_args.patch_size = 16,
      num_mixer_layers = 8,
      MlpMixer_args.embed_dim = 512,
      mlp_ratio = (1 / 2, 4),
      MlpMixer_args.dropout = 0,
      droppath = 0,
      patch_embed_norm = False\<rparr>"

record MlpMixer =
  num_classes :: int
  num_features :: int
  embed_dim :: int
  patch_embed :: PatchEmbedding
  mixer_layers :: "MixerBlock list"
  norm :: LayerNorm
  head :: Linear

text \<open>
  The list comprehension \<open>[MixerBlock(...) for _ in range(num_mixer_layers)]\<close>: one
  constructor call after the other, all with the same arguments.
\<close>

fun mixer_blocks ::
  "'g framework \<Rightarrow> int \<Rightarrow> int \<Rightarrow> real \<times> real \<Rightarrow> real \<Rightarrow> real \<Rightarrow> nat \<Rightarrow> 'g
     \<Rightarrow> error + (MixerBlock list \<times> 'g)" where
  "mixer_blocks env dm seq_len ratio dr dp 0 g = Inr ([], g)"
| "mixer_blocks env dm seq_len ratio dr dp (Suc n) g =
     rbind (MixerBlock_init env dm seq_len ratio dr dp g) (\<lambda>(blk, g).
     rbind (mixer_blocks env dm seq_len ratio dr dp n g) (\<lambda>(blks, g).
     Inr (blk # blks, g)))"

definition MlpMixer_init ::
  "'g framework \<Rightarrow> MlpMixer_args \<Rightarrow> 'g \<Rightarrow> error + (MlpMixer \<times> 'g)" where
  "MlpMixer_init env a g =
     rbind (LayerNorm_init (MlpMixer_args.embed_dim a) (1 / 10 ^ 6)) (\<lambda>norm_layer'.
     rbind (PatchEmbedding_init env
              (MlpMixer_args.image_size a)
              (MlpMixer_args.patch_size a)
              (MlpMixer_args.in_channels a)
              (MlpMixer_args.embed_dim a)
              (if patch_embed_norm a then Some norm_layer' else None) g) (\<lambda>(patch_embed', g).
     rbind (mixer_blocks env
              (MlpMixer_args.embed_dim a)
              (num_patches patch_embed')
              (mlp_ratio a)
              (MlpMixer_args.dropout a)
              (droppath a)
              (nat (num_mixer_layers a)) g) (\<lambda>(mixer_layers', g).
     rbind (LayerNorm_init (MlpMixer_args.embed_dim a) (1 / 10 ^ 6)) (\<lambda>norm'.
     rbind (Linear_init env (MlpMixer_args.embed_dim a) (MlpMixer_args.num_classes a)
              None None g) (\<lambda>(head', g).
     Inr (\<lparr>MlpMixer.num_classes = MlpMixer_args.num_classes a,
            num_features = MlpMixer_args.embed_dim a,
            MlpMixer.embed_dim = MlpMixer_args.embed_dim a,
            MlpMixer.patch_embed = patch_embed',
            mixer_layers = mixer_layers',
            MlpMixer.norm = norm',
            head = head'\<rparr>, g))))))"

text \<open>\<open>nn.Sequential\<close>: each layer is called on the output of the one before.\<close>

fun Sequential_forward ::
  "'g framework \<Rightarrow> MixerBlock list \<Rightarrow> tensor3 \<Rightarrow> 'g \<Rightarrow> error + (tensor3 \<times> 'g)" where
  "Sequential_forward env [] x g = Inr (x, g)"
| "Sequential_forward env (blk # blks) x g =
     rbind (MixerBlock_forward env blk x g) (\<lambda>(x, g). Sequential_forward env blks x g)"

definition forward_features ::
  "'g framework \<Rightarrow> MlpMixer \<Rightarrow> tensor4 \<Rightarrow> 'g \<Rightarrow> error + (mat \<times> 'g)" where
  "forward_features env m x g =
     rbind (PatchEmbedding_forward (MlpMixer.patch_embed m) x) (\<lambda>x.
     rbind (Sequential_forward env (mixer_layers m) x g) (\<lambda>(x, g).
     rbind (LayerNorm_forward (MlpMixer.norm m) x) (\<lambda>x.
     let x = mean_axis1 x in
     Inr (x, g))))"

definition MlpMixer_forward ::
  "'g framework \<Rightarrow> MlpMixer \<Rightarrow> tensor4 \<Rightarrow> 'g \<Rightarrow> error + (mat \<times> 'g)" where
  "MlpMixer_forward env m x g =
     rbind (forward_features env m x g) (\<lambda>(x, g).
     rbind (Linear_forward2 (head m) x) (\<lambda>x.
     Inr (x, g)))"

subsection \<open>\<open>build_mlp_mixer\<close>\<close>

text \<open>
  The config object: the options the function reads, each group extensible by whatever
  other options the object carries.
\<close>

record MIXER_config =
  NUM_LAYERS :: int
  HIDDEN_SIZE :: int

record 'mx MODEL_config =
  NUM_CLASSES :: int
  MIXER :: "'mx MIXER_config_scheme"
  DROPOUT :: real
  DROPPATH :: real

record DATA_config =
  IMAGE_SIZE :: int

record ('mx, 'mo, 'da) config =
  MODEL :: "('mx, 'mo) MODEL_config_scheme"
  DATA :: "'da DATA_config_scheme"

definition build_mlp_mixer ::
  "'g framework \<Rightarrow> ('mx, 'mo, 'da, 'z) config_scheme \<Rightarrow> 'g \<Rightarrow> error + (MlpMixer \<times> 'g)" where
  "build_mlp_mixer env cfg g =
     MlpMixer_init env
       (MlpMixer_defaults
          \<lparr>MlpMixer_args.num_classes := NUM_CLASSES (MODEL cfg),
           MlpMixer_args.image_size := IMAGE_SIZE (DATA cfg),
           MlpMixer_args.in_channels := 3,
           num_mixer_layers := NUM_LAYERS (MIXER (MODEL cfg)),
           MlpMixer_args.embed_dim := HIDDEN_SIZE (MIXER (MODEL cfg)),
           mlp_ratio := (1 / 2, 4),
           MlpMixer_args.dropout := DROPOUT (MODEL cfg),
           droppath := DROPPATH (MODEL cfg)\<rparr>) g"


subsection \<open>Auxiliary definitions and example values\<close>

text \<open>
  A framework instance in which dropout and drop path are the identity (as at inference)
  and every random draw returns zero, small constructor arguments, and two config objects
  that differ only in options that \<open>build_mlp_mixer\<close> does not read.
\<close>

definition test_framework :: "unit framework" where
  "test_framework =
     \<lparr>gelu = (\<lambda>a. a),
      dropout_fn = (\<lambda>rate x g. Inr (x, g)),
      drop_path_fn = (\<lambda>rate x g. Inr (x, g)),
      random_fn = (\<lambda>ini shp g. (0, g))\<rparr>"

definition small_args :: MlpMixer_args where
  "small_args = MlpMixer_defaults
     \<lparr>MlpMixer_args.num_classes := 3, MlpMixer_args.image_size := 4,
      MlpMixer_args.in_channels := 1, MlpMixer_args.patch_size := 2,
      num_mixer_layers := 2, MlpMixer_args.embed_dim := 2\<rparr>"

text \<open>
  The linear layers of a model (four per mixer block, then the head), and the
  initialisation that \<open>Mlp._init_weights\<close> asks for.
\<close>

definition linear_layers :: "MlpMixer \<Rightarrow> Linear list" where
  "linear_layers m =
     concat (map (\<lambda>blk. [fc1 (mlp_tokens blk), fc2 (mlp_tokens blk),
                          fc1 (mlp_channels blk), fc2 (mlp_channels blk)]) (mixer_layers m))
     @ [head m]"

definition xavier_normal_init :: "Linear \<Rightarrow> bool" where
  "xavier_normal_init l \<longleftrightarrow>
     weight_initializer (weight_attr l) = XavierUniform \<and>
     bias_initializer (bias_attr l) = Normal 0 (1 / 10 ^ 6)"

definition example_config :: "(unit, unit, unit) config" where
  "example_config =
     \<lparr>MODEL = \<lparr>NUM_CLASSES = 10, MIXER = \<lparr>NUM_LAYERS = 1, HIDDEN_SIZE = 2\<rparr>,
               DROPOUT = 0, DROPPATH = 0\<rparr>,
      DATA = \<lparr>IMAGE_SIZE = 32\<rparr>\<rparr>"

definition example_config_more :: "(int, real \<times> real, unit, int) config_scheme" where
  "example_config_more =
     \<lparr>MODEL = \<lparr>NUM_CLASSES = 10, MIXER = \<lparr>NUM_LAYERS = 1, HIDDEN_SIZE = 2, \<dots> = 4\<rparr>,
               DROPOUT = 0, DROPPATH = 0, \<dots> = (1, 2)\<rparr>,
      DATA = \<lparr>IMAGE_SIZE = 32\<rparr>, \<dots> = 1\<rparr>"

text \<open>
  What the statements about shapes assume of the opaque stochastic operations: on every
  input and generator state they return, and the result has the shape of the input.
\<close>

definition shape_preserving :: "(tensor3 \<Rightarrow> 'g \<Rightarrow> error + (tensor3 \<times> 'g)) \<Rightarrow> bool" where
  "shape_preserving f \<longleftrightarrow> (\<forall>x g. \<exists>y g'. f x g = Inr (y, g') \<and> same_shape x y)"

text \<open>
  The two stages of a mixer block as the architecture describes them: the token-mixing
  stage adds to \<open>x\<close> the drop-path of the transposed token \<open>Mlp\<close> of the transposed
  normalisation of \<open>x\<close>; the channel-mixing stage adds to its input the drop-path of the
  channel \<open>Mlp\<close> of the normalisation of its input.
\<close>

definition token_mixing_stage ::
  "'g framework \<Rightarrow> MixerBlock \<Rightarrow> tensor3 \<Rightarrow> 'g \<Rightarrow> error + (tensor3 \<times> 'g)" where
  "token_mixing_stage env blk x g =
     rbind (LayerNorm_forward (norm1 blk) x) (\<lambda>n1.
     rbind (Mlp_forward env (mlp_tokens blk) (transpose021 n1) g) (\<lambda>(m1, g1).
     rbind (DropPath_forward env (drop_path blk) (transpose021 m1) g1) (\<lambda>(d1, g2).
     rbind (add x d1) (\<lambda>x1. Inr (x1, g2)))))"

definition channel_mixing_stage ::
  "'g framework \<Rightarrow> MixerBlock \<Rightarrow> tensor3 \<Rightarrow> 'g \<Rightarrow> error + (tensor3 \<times> 'g)" where
  "channel_mixing_stage env blk x1 g =
     rbind (LayerNorm_forward (norm2 blk) x1) (\<lambda>n2.
     rbind (Mlp_forward env (mlp_channels blk) n2 g) (\<lambda>(m2, g3).
     rbind (DropPath_forward env (drop_path blk) m2 g3) (\<lambda>(d2, g4).
     rbind (add x1 d2) (\<lambda>y. Inr (y, g4)))))"







section \<open>Properties\<close>

subsection \<open>Results and parameter creation\<close>

lemma rbind_Inl [simp]: "rbind (Inl e) f = Inl e"
  by (simp add: rbind_def)

lemma rbind_Inr [simp]: "rbind (Inr v) f = f v"
  by (simp add: rbind_def)

lemma rbind_eq_Inr: "rbind r f = Inr y \<longleftrightarrow> (\<exists>v. r = Inr v \<and> f v = Inr y)"
  by (cases r) simp_all

lemma draw_list_length: "length (fst (draw_list f n g)) = n"
  by (induction n arbitrary: g) (simp_all add: split_beta Let_def)

lemma draw_list_all:
  "(\<And>g. P (fst (f g))) \<Longrightarrow> \<forall>a\<in>set (fst (draw_list f n g)). P a"
  by (induction n arbitrary: g) (simp_all add: split_beta Let_def)

lemma create_parameter1_length: "length (fst (create_parameter1 env ini n g)) = n"
  by (simp add: create_parameter1_def draw_list_length)

lemma create_parameter2_shape: "shape2 n m (fst (create_parameter2 env ini n m g))"
  unfolding shape2_def create_parameter2_def
  by (intro conjI draw_list_length draw_list_all)

lemma create_parameter4_shape: "shape4 a b c d (fst (create_parameter4 env ini a b c d g))"
  unfolding shape4_def shape3_def shape2_def create_parameter4_def
  by (intro conjI draw_list_length draw_list_all)

lemma Linear_init_Inr:
  "Linear_init env i o' wa ba g = Inr (l, g') \<Longrightarrow>
     0 < i \<and> 0 < o' \<and> in_features l = i \<and> out_features l = o' \<and>
     weight_attr l = wa \<and> bias_attr l = ba \<and>
     shape2 (nat i) (nat o') (Linear.weight l) \<and> length (Linear.bias l) = nat o'"
  by (auto simp: Linear_init_def split_beta Let_def create_parameter1_length
        create_parameter2_shape split: if_splits)

lemma Linear_init_ok:
  "0 < i \<Longrightarrow> 0 < o' \<Longrightarrow> \<exists>l g'. Linear_init env i o' wa ba g = Inr (l, g')"
  by (simp add: Linear_init_def split_beta Let_def)

lemma LayerNorm_init_Inr:
  "LayerNorm_init d e = Inr nl \<Longrightarrow>
     0 < d \<and> normalized_shape nl = d \<and> epsilon nl = e \<and>
     length (LayerNorm.weight nl) = nat d \<and> length (LayerNorm.bias nl) = nat d"
  by (auto simp: LayerNorm_init_def split: if_splits)

lemma LayerNorm_init_ok: "0 < d \<Longrightarrow> \<exists>nl. LayerNorm_init d e = Inr nl"
  by (simp add: LayerNorm_init_def)

lemma Conv2D_init_Inr:
  "Conv2D_init env i o' ks st g = Inr (cv, g') \<Longrightarrow>
     0 < i \<and> 0 < o' \<and> 0 < fst ks \<and> 0 < snd ks \<and> 0 < fst st \<and> 0 < snd st \<and>
     Conv2D.in_channels cv = i \<and> out_channels cv = o' \<and> kernel_size cv = ks \<and> stride cv = st \<and>
     shape4 (nat o') (nat i) (nat (fst ks)) (nat (snd ks)) (Conv2D.weight cv) \<and>
     length (Conv2D.bias cv) = nat o'"
  by (auto simp: Conv2D_init_def split_beta Let_def create_parameter1_length
        create_parameter4_shape split: if_splits)

lemma Conv2D_init_ok:
  "0 < i \<Longrightarrow> 0 < o' \<Longrightarrow> 0 < fst ks \<Longrightarrow> 0 < snd ks \<Longrightarrow> 0 < fst st \<Longrightarrow> 0 < snd st \<Longrightarrow>
     \<exists>cv g'. Conv2D_init env i o' ks st g = Inr (cv, g')"
  by (simp add: Conv2D_init_def split_beta Let_def)

lemma PatchEmbedding_init_Inr:
  "PatchEmbedding_init env isz ps ic ed nlo g = Inr (pe, g') \<Longrightarrow>
     ps \<noteq> 0 \<and>
     PatchEmbedding.image_size pe = (isz, isz) \<and> PatchEmbedding.patch_size pe = (ps, ps) \<and>
     patches_resolution pe = [isz div ps, isz div ps] \<and>
     num_patches pe = (isz div ps) * (isz div ps) \<and>
     PatchEmbedding.in_channels pe = ic \<and> PatchEmbedding.embed_dim pe = ed \<and>
     Conv2D_init env ic ed (ps, ps) (ps, ps) g = Inr (PatchEmbedding.patch_embed pe, g') \<and>
     PatchEmbedding.norm pe = (case nlo of None \<Rightarrow> Identity | Some nl \<Rightarrow> Norm nl)"
  by (auto simp: PatchEmbedding_init_def Let_def rbind_eq_Inr py_floordiv_def
        split: if_splits)

lemma PatchEmbedding_init_ok:
  "ps > 0 \<Longrightarrow> ic > 0 \<Longrightarrow> ed > 0 \<Longrightarrow>
     \<exists>pe g'. PatchEmbedding_init env isz ps ic ed nlo g = Inr (pe, g')"
  using Conv2D_init_ok [of ic ed "(ps, ps)" "(ps, ps)" env g]
  by (auto simp: PatchEmbedding_init_def Let_def py_floordiv_def)

lemma Mlp_init_Inr:
  "Mlp_init env i h dr g = Inr (m, g') \<Longrightarrow>
     \<exists>g1. Linear_init env i h (Some (fst Mlp_init_weights)) (Some (snd Mlp_init_weights)) g
            = Inr (fc1 m, g1) \<and>
          Linear_init env h i (Some (fst Mlp_init_weights)) (Some (snd Mlp_init_weights)) g1
            = Inr (fc2 m, g') \<and>
          act m = GELU \<and> p (Mlp.dropout m) = dr"
  by (auto simp: Mlp_init_def split_beta Let_def rbind_eq_Inr)

lemma Mlp_init_ok:
  assumes "0 < i" "0 < h"
  shows "\<exists>m g'. Mlp_init env i h dr g = Inr (m, g')"
proof -
  let ?wa = "Some (fst Mlp_init_weights)" and ?ba = "Some (snd Mlp_init_weights)"
  obtain l1 g1 where 1: "Linear_init env i h ?wa ?ba g = Inr (l1, g1)"
    using Linear_init_ok [OF assms, where env = env and g = g] by metis
  obtain l2 g2 where 2: "Linear_init env h i ?wa ?ba g1 = Inr (l2, g2)"
    using Linear_init_ok [OF assms(2) assms(1), where env = env and g = g1] by metis
  show ?thesis
    by (simp add: Mlp_init_def split_beta Let_def 1 2)
qed

lemma MixerBlock_init_Inr:
  "MixerBlock_init env dm sl r dr dp g = Inr (blk, g') \<Longrightarrow>
     \<exists>g1. LayerNorm_init dm (1 / 10 ^ 6) = Inr (norm1 blk) \<and>
          Mlp_init env sl (py_int (fst r * real_of_int dm)) dr g = Inr (mlp_tokens blk, g1) \<and>
          drop_prob (drop_path blk) = dp \<and>
          LayerNorm_init dm (1 / 10 ^ 6) = Inr (norm2 blk) \<and>
          Mlp_init env dm (py_int (snd r * real_of_int dm)) dr g1 = Inr (mlp_channels blk, g')"
  by (auto simp: MixerBlock_init_def Let_def rbind_eq_Inr)

lemma MixerBlock_init_ok:
  assumes "0 < dm" "0 < sl" "0 < py_int (fst r * real_of_int dm)"
    "0 < py_int (snd r * real_of_int dm)"
  shows "\<exists>blk g'. MixerBlock_init env dm sl r dr dp g = Inr (blk, g')"
proof -
  obtain nl where 0: "LayerNorm_init dm (1 / 10 ^ 6) = Inr nl"
    using LayerNorm_init_ok [OF assms(1)] by metis
  obtain m1 g1 where 1: "Mlp_init env sl (py_int (fst r * real_of_int dm)) dr g = Inr (m1, g1)"
    using Mlp_init_ok [OF assms(2) assms(3), where env = env and g = g] by metis
  obtain m2 g2 where 2: "Mlp_init env dm (py_int (snd r * real_of_int dm)) dr g1 = Inr (m2, g2)"
    using Mlp_init_ok [OF assms(1) assms(4), where env = env and g = g1] by metis
  show ?thesis
    using 0 1 2 by (simp add: MixerBlock_init_def Let_def)
qed

lemma mixer_blocks_Inr:
  "mixer_blocks env dm sl r dr dp n g = Inr (blks, g') \<Longrightarrow>
     length blks = n \<and>
     (\<forall>blk\<in>set blks. \<exists>g1 g2. MixerBlock_init env dm sl r dr dp g1 = Inr (blk, g2))"
proof (induction n arbitrary: g blks)
  case 0
  then show ?case by simp
next
  case (Suc n)
  from Suc.prems obtain blk g1 rest where
    b: "MixerBlock_init env dm sl r dr dp g = Inr (blk, g1)" and
    r: "mixer_blocks env dm sl r dr dp n g1 = Inr (rest, g')" and
    e: "blks = blk # rest"
    by (auto simp: rbind_eq_Inr)
  from Suc.IH [OF r] b e show ?case by auto
qed

lemma mixer_blocks_ok:
  assumes "\<And>g. \<exists>blk g'. MixerBlock_init env dm sl r dr dp g = Inr (blk, g')"
  shows "\<exists>blks g'. mixer_blocks env dm sl r dr dp n g = Inr (blks, g')"
proof (induction n arbitrary: g)
  case 0
  then show ?case by simp
next
  case (Suc n)
  obtain blk g1 where b: "MixerBlock_init env dm sl r dr dp g = Inr (blk, g1)"
    using assms by blast
  obtain rest g2 where r: "mixer_blocks env dm sl r dr dp n g1 = Inr (rest, g2)"
    using Suc.IH by blast
  show ?case by (simp add: b r)
qed

lemma MlpMixer_init_Inr:
  "MlpMixer_init env a g = Inr (m, g') \<Longrightarrow>
     \<exists>nl0 g1 g2.
       LayerNorm_init (MlpMixer_args.embed_dim a) (1 / 10 ^ 6) = Inr nl0 \<and>
       PatchEmbedding_init env (MlpMixer_args.image_size a) (MlpMixer_args.patch_size a)
         (MlpMixer_args.in_channels a) (MlpMixer_args.embed_dim a)
         (if patch_embed_norm a then Some nl0 else None) g = Inr (MlpMixer.patch_embed m, g1) \<and>
       mixer_blocks env (MlpMixer_args.embed_dim a) (num_patches (MlpMixer.patch_embed m))
         (mlp_ratio a) (MlpMixer_args.dropout a) (droppath a) (nat (num_mixer_layers a)) g1
         = Inr (mixer_layers m, g2) \<and>
       LayerNorm_init (MlpMixer_args.embed_dim a) (1 / 10 ^ 6) = Inr (MlpMixer.norm m) \<and>
       Linear_init env (MlpMixer_args.embed_dim a) (MlpMixer_args.num_classes a) None None g2
         = Inr (head m, g') \<and>
       MlpMixer.num_classes m = MlpMixer_args.num_classes a \<and>
       num_features m = MlpMixer_args.embed_dim a \<and>
       MlpMixer.embed_dim m = MlpMixer_args.embed_dim a"
  by (auto simp: MlpMixer_init_def rbind_eq_Inr)

lemma MlpMixer_init_ok:
  assumes "0 < MlpMixer_args.embed_dim a" "0 < MlpMixer_args.patch_size a"
    "0 < MlpMixer_args.in_channels a" "0 < MlpMixer_args.num_classes a"
    "MlpMixer_args.patch_size a \<le> MlpMixer_args.image_size a"
    "0 < py_int (fst (mlp_ratio a) * real_of_int (MlpMixer_args.embed_dim a))"
    "0 < py_int (snd (mlp_ratio a) * real_of_int (MlpMixer_args.embed_dim a))"
  shows "\<exists>m g'. MlpMixer_init env a g = Inr (m, g')"
proof -
  let ?e = "MlpMixer_args.embed_dim a"
  obtain nl where 0: "LayerNorm_init ?e (1 / 10 ^ 6) = Inr nl"
    using LayerNorm_init_ok [OF assms(1)] by metis
  obtain pe g1 where 1: "PatchEmbedding_init env (MlpMixer_args.image_size a)
      (MlpMixer_args.patch_size a) (MlpMixer_args.in_channels a) ?e
      (if patch_embed_norm a then Some nl else None) g = Inr (pe, g1)"
    using PatchEmbedding_init_ok [OF assms(2) assms(3) assms(1), where env = env and g = g]
    by metis
  have "0 < MlpMixer_args.image_size a div MlpMixer_args.patch_size a"
    using assms(2) assms(5) by (simp add: pos_imp_zdiv_pos_iff)
  then have np: "0 < num_patches pe"
    using PatchEmbedding_init_Inr [OF 1] by simp
  obtain blks g2 where 2: "mixer_blocks env ?e (num_patches pe) (mlp_ratio a)
      (MlpMixer_args.dropout a) (droppath a) (nat (num_mixer_layers a)) g1 = Inr (blks, g2)"
    using mixer_blocks_ok [where env = env and g = g1,
        OF MixerBlock_init_ok [OF assms(1) np assms(6) assms(7)]]
    by metis
  obtain hd' g3 where 3: "Linear_init env ?e (MlpMixer_args.num_classes a) None None g2
      = Inr (hd', g3)"
    using Linear_init_ok [OF assms(1) assms(4), where env = env and g = g2] by metis
  show ?thesis
    using 0 1 2 3 by (simp add: MlpMixer_init_def)
qed

lemma small_args_ok: "\<exists>m g'. MlpMixer_init env small_args g = Inr (m, g')"
  by (rule MlpMixer_init_ok) (simp_all add: small_args_def MlpMixer_defaults_def py_int_def)


subsection \<open>What \<open>build_mlp_mixer\<close> passes to the constructor\<close>

text \<open>
  C10. For every config object, \<open>build_mlp_mixer\<close> constructs the model with
  \<open>in_channels\<close> fixed to 3, \<open>mlp_ratio\<close> fixed to (0.5, 4.0) and \<open>patch_size\<close> left at
  its default 16 (and \<open>patch_embed_norm\<close> at its default), whatever else the config
  contains; only the number of classes, the image size, the number of mixer layers, the
  embedding dimension and the two drop rates come from the config. Stated three ways: the
  exact arguments of the constructor call; two configs that agree on the six options
  build the same model; and the fixed values as they appear in a model that was built.
\<close>

theorem build_mlp_mixer_fixed_options:
  "build_mlp_mixer env cfg g =
     MlpMixer_init env
       \<lparr>MlpMixer_args.num_classes = NUM_CLASSES (MODEL cfg),
        MlpMixer_args.image_size = IMAGE_SIZE (DATA cfg),
        MlpMixer_args.in_channels = 3,
        MlpMixer_args.patch_size = 16,
        num_mixer_layers = NUM_LAYERS (MIXER (MODEL cfg)),
        MlpMixer_args.embed_dim = HIDDEN_SIZE (MIXER (MODEL cfg)),
        mlp_ratio = (1 / 2, 4),
        MlpMixer_args.dropout = DROPOUT (MODEL cfg),
        droppath = DROPPATH (MODEL cfg),
        patch_embed_norm = False\<rparr> g
   \<and> (NUM_CLASSES (MODEL cfg') = NUM_CLASSES (MODEL cfg) \<and>
      IMAGE_SIZE (DATA cfg') = IMAGE_SIZE (DATA cfg) \<and>
      NUM_LAYERS (MIXER (MODEL cfg')) = NUM_LAYERS (MIXER (MODEL cfg)) \<and>
      HIDDEN_SIZE (MIXER (MODEL cfg')) = HIDDEN_SIZE (MIXER (MODEL cfg)) \<and>
      DROPOUT (MODEL cfg') = DROPOUT (MODEL cfg) \<and>
      DROPPATH (MODEL cfg') = DROPPATH (MODEL cfg)
      \<longrightarrow> build_mlp_mixer env cfg' g = build_mlp_mixer env cfg g)
   \<and> (build_mlp_mixer env cfg g = Inr (m, g') \<longrightarrow>
        PatchEmbedding.in_channels (MlpMixer.patch_embed m) = 3 \<and>
        Conv2D.in_channels (PatchEmbedding.patch_embed (MlpMixer.patch_embed m)) = 3 \<and>
        PatchEmbedding.patch_size (MlpMixer.patch_embed m) = (16, 16) \<and>
        kernel_size (PatchEmbedding.patch_embed (MlpMixer.patch_embed m)) = (16, 16) \<and>
        stride (PatchEmbedding.patch_embed (MlpMixer.patch_embed m)) = (16, 16) \<and>
        (\<forall>blk\<in>set (mixer_layers m).
           out_features (fc1 (mlp_tokens blk))
             = py_int (1 / 2 * real_of_int (HIDDEN_SIZE (MIXER (MODEL cfg)))) \<and>
           out_features (fc1 (mlp_channels blk))
             = py_int (4 * real_of_int (HIDDEN_SIZE (MIXER (MODEL cfg))))))"
proof (intro conjI impI)
  show args: "build_mlp_mixer env cfg g =
     MlpMixer_init env
       \<lparr>MlpMixer_args.num_classes = NUM_CLASSES (MODEL cfg),
        MlpMixer_args.image_size = IMAGE_SIZE (DATA cfg),
        MlpMixer_args.in_channels = 3,
        MlpMixer_args.patch_size = 16,
        num_mixer_layers = NUM_LAYERS (MIXER (MODEL cfg)),
        MlpMixer_args.embed_dim = HIDDEN_SIZE (MIXER (MODEL cfg)),
        mlp_ratio = (1 / 2, 4),
        MlpMixer_args.dropout = DROPOUT (MODEL cfg),
        droppath = DROPPATH (MODEL cfg),
        patch_embed_norm = False\<rparr> g" (is "_ = MlpMixer_init env ?a g")
    by (simp add: build_mlp_mixer_def MlpMixer_defaults_def)
  {
    assume "NUM_CLASSES (MODEL cfg') = NUM_CLASSES (MODEL cfg) \<and>
      IMAGE_SIZE (DATA cfg') = IMAGE_SIZE (DATA cfg) \<and>
      NUM_LAYERS (MIXER (MODEL cfg')) = NUM_LAYERS (MIXER (MODEL cfg)) \<and>
      HIDDEN_SIZE (MIXER (MODEL cfg')) = HIDDEN_SIZE (MIXER (MODEL cfg)) \<and>
      DROPOUT (MODEL cfg') = DROPOUT (MODEL cfg) \<and>
      DROPPATH (MODEL cfg') = DROPPATH (MODEL cfg)"
    then show "build_mlp_mixer env cfg' g = build_mlp_mixer env cfg g"
      by (simp add: build_mlp_mixer_def)
  }
  assume "build_mlp_mixer env cfg g = Inr (m, g')"
  then have init: "MlpMixer_init env ?a g = Inr (m, g')"
    using args by simp
  from MlpMixer_init_Inr [OF init] obtain nl0 g1 g2 where
    pe: "PatchEmbedding_init env (IMAGE_SIZE (DATA cfg)) 16 3 (HIDDEN_SIZE (MIXER (MODEL cfg)))
           None g = Inr (MlpMixer.patch_embed m, g1)" and
    bl: "mixer_blocks env (HIDDEN_SIZE (MIXER (MODEL cfg))) (num_patches (MlpMixer.patch_embed m))
           (1 / 2, 4) (DROPOUT (MODEL cfg)) (DROPPATH (MODEL cfg))
           (nat (NUM_LAYERS (MIXER (MODEL cfg)))) g1 = Inr (mixer_layers m, g2)"
    by auto
  note p = PatchEmbedding_init_Inr [OF pe]
  note c = Conv2D_init_Inr [OF p [THEN conjunct2, THEN conjunct2, THEN conjunct2, THEN conjunct2,
        THEN conjunct2, THEN conjunct2, THEN conjunct2, THEN conjunct1]]
  show "PatchEmbedding.in_channels (MlpMixer.patch_embed m) = 3" using p by simp
  show "Conv2D.in_channels (PatchEmbedding.patch_embed (MlpMixer.patch_embed m)) = 3"
    using c by simp
  show "PatchEmbedding.patch_size (MlpMixer.patch_embed m) = (16, 16)" using p by simp
  show "kernel_size (PatchEmbedding.patch_embed (MlpMixer.patch_embed m)) = (16, 16)"
    using c by simp
  show "stride (PatchEmbedding.patch_embed (MlpMixer.patch_embed m)) = (16, 16)"
    using c by simp
  show "\<forall>blk\<in>set (mixer_layers m).
           out_features (fc1 (mlp_tokens blk))
             = py_int (1 / 2 * real_of_int (HIDDEN_SIZE (MIXER (MODEL cfg)))) \<and>
           out_features (fc1 (mlp_channels blk))
             = py_int (4 * real_of_int (HIDDEN_SIZE (MIXER (MODEL cfg))))"
  proof
    fix blk assume "blk \<in> set (mixer_layers m)"
    with mixer_blocks_Inr [OF bl] obtain ga gb where
      "MixerBlock_init env (HIDDEN_SIZE (MIXER (MODEL cfg))) (num_patches (MlpMixer.patch_embed m))
           (1 / 2, 4) (DROPOUT (MODEL cfg)) (DROPPATH (MODEL cfg)) ga = Inr (blk, gb)"
      by blast
    from MixerBlock_init_Inr [OF this] obtain gc where
      t: "Mlp_init env (num_patches (MlpMixer.patch_embed m))
            (py_int (fst (1 / 2 :: real, 4 :: real) * real_of_int (HIDDEN_SIZE (MIXER (MODEL cfg)))))
            (DROPOUT (MODEL cfg)) ga = Inr (mlp_tokens blk, gc)" and
      c: "Mlp_init env (HIDDEN_SIZE (MIXER (MODEL cfg)))
            (py_int (snd (1 / 2 :: real, 4 :: real) * real_of_int (HIDDEN_SIZE (MIXER (MODEL cfg)))))
            (DROPOUT (MODEL cfg)) gc = Inr (mlp_channels blk, gb)"
      by blast
    from Mlp_init_Inr [OF t] Mlp_init_Inr [OF c]
    show "out_features (fc1 (mlp_tokens blk))
             = py_int (1 / 2 * real_of_int (HIDDEN_SIZE (MIXER (MODEL cfg)))) \<and>
           out_features (fc1 (mlp_channels blk))
             = py_int (4 * real_of_int (HIDDEN_SIZE (MIXER (MODEL cfg))))"
      by (auto dest!: Linear_init_Inr)
  qed
qed


theorem build_mlp_mixer_fixed_options_witness:
  "\<exists>m g'. build_mlp_mixer test_framework example_config () = Inr (m, g') \<and>
     PatchEmbedding.in_channels (MlpMixer.patch_embed m) = 3 \<and>
     PatchEmbedding.patch_size (MlpMixer.patch_embed m) = (16, 16) \<and>
     mixer_layers m \<noteq> [] \<and>
     (\<forall>blk\<in>set (mixer_layers m).
        out_features (fc1 (mlp_tokens blk)) = 1 \<and> out_features (fc1 (mlp_channels blk)) = 8) \<and>
     build_mlp_mixer test_framework example_config_more ()
       = build_mlp_mixer test_framework example_config ()"
proof -
  note th0 = build_mlp_mixer_fixed_options
    [where env = test_framework and cfg = example_config and g = "()"]
  have "\<exists>m g'. build_mlp_mixer test_framework example_config () = Inr (m, g')"
    unfolding th0 [THEN conjunct1]
    by (rule MlpMixer_init_ok) (simp_all add: example_config_def py_int_def)
  then obtain m g' where b: "build_mlp_mixer test_framework example_config () = Inr (m, g')"
    by blast
  note t = build_mlp_mixer_fixed_options
    [where env = test_framework and cfg = example_config and g = "()" and m = m and g' = g'
       and cfg' = example_config_more]
  from b t [THEN conjunct1] have init: "MlpMixer_init test_framework
       \<lparr>MlpMixer_args.num_classes = NUM_CLASSES (MODEL example_config),
        MlpMixer_args.image_size = IMAGE_SIZE (DATA example_config),
        MlpMixer_args.in_channels = 3,
        MlpMixer_args.patch_size = 16,
        num_mixer_layers = NUM_LAYERS (MIXER (MODEL example_config)),
        MlpMixer_args.embed_dim = HIDDEN_SIZE (MIXER (MODEL example_config)),
        mlp_ratio = (1 / 2, 4),
        MlpMixer_args.dropout = DROPOUT (MODEL example_config),
        droppath = DROPPATH (MODEL example_config),
        patch_embed_norm = False\<rparr> () = Inr (m, g')"
    by simp
  from MlpMixer_init_Inr [OF init] obtain g1 g2 n where
    "mixer_blocks test_framework 2 n (1 / 2, 4) 0 0 (Suc 0) g1 = Inr (mixer_layers m, g2)"
    by (auto simp: example_config_def)
  from mixer_blocks_Inr [OF this] have ne: "mixer_layers m \<noteq> []"
    by auto
  have same: "build_mlp_mixer test_framework example_config_more ()
       = build_mlp_mixer test_framework example_config ()"
    using t [THEN conjunct2, THEN conjunct1]
    by (simp add: example_config_def example_config_more_def)
  have dims: "\<forall>blk\<in>set (mixer_layers m).
        out_features (fc1 (mlp_tokens blk)) = 1 \<and> out_features (fc1 (mlp_channels blk)) = 8"
    using t [THEN conjunct2, THEN conjunct2] b
    by (simp add: example_config_def py_int_def)
  from b t [THEN conjunct2, THEN conjunct2] ne same dims show ?thesis
    by blast
qed

subsection \<open>The epsilon of the layer normalisations\<close>

text \<open>
  C7. Every layer normalisation of a constructed model has epsilon \<open>1e-6\<close>: \<open>norm1\<close> and
  \<open>norm2\<close> of every mixer block, the final normalisation, and the normalisation of the
  patch embedding, which is present exactly when \<open>patch_embed_norm\<close> is set.
\<close>

theorem layer_norm_epsilon:
  "MlpMixer_init env a g = Inr (m, g') \<Longrightarrow>
     epsilon (MlpMixer.norm m) = 1 / 10 ^ 6 \<and>
     (\<forall>blk\<in>set (mixer_layers m).
        epsilon (norm1 blk) = 1 / 10 ^ 6 \<and> epsilon (norm2 blk) = 1 / 10 ^ 6) \<and>
     (case PatchEmbedding.norm (MlpMixer.patch_embed m) of
        Identity \<Rightarrow> \<not> patch_embed_norm a
      | Norm nl \<Rightarrow> patch_embed_norm a \<and> epsilon nl = 1 / 10 ^ 6)"
proof -
  assume init: "MlpMixer_init env a g = Inr (m, g')"
  from MlpMixer_init_Inr [OF init] obtain nl0 g1 g2 where
    n0: "LayerNorm_init (MlpMixer_args.embed_dim a) (1 / 10 ^ 6) = Inr nl0" and
    pe: "PatchEmbedding_init env (MlpMixer_args.image_size a) (MlpMixer_args.patch_size a)
         (MlpMixer_args.in_channels a) (MlpMixer_args.embed_dim a)
         (if patch_embed_norm a then Some nl0 else None) g = Inr (MlpMixer.patch_embed m, g1)" and
    bl: "mixer_blocks env (MlpMixer_args.embed_dim a) (num_patches (MlpMixer.patch_embed m))
         (mlp_ratio a) (MlpMixer_args.dropout a) (droppath a) (nat (num_mixer_layers a)) g1
         = Inr (mixer_layers m, g2)" and
    nf: "LayerNorm_init (MlpMixer_args.embed_dim a) (1 / 10 ^ 6) = Inr (MlpMixer.norm m)"
    by blast
  have 1: "epsilon (MlpMixer.norm m) = 1 / 10 ^ 6"
    using LayerNorm_init_Inr [OF nf] by simp
  have 2: "\<forall>blk\<in>set (mixer_layers m).
        epsilon (norm1 blk) = 1 / 10 ^ 6 \<and> epsilon (norm2 blk) = 1 / 10 ^ 6"
  proof
    fix blk assume "blk \<in> set (mixer_layers m)"
    with mixer_blocks_Inr [OF bl] obtain ga gb where
      "MixerBlock_init env (MlpMixer_args.embed_dim a) (num_patches (MlpMixer.patch_embed m))
         (mlp_ratio a) (MlpMixer_args.dropout a) (droppath a) ga = Inr (blk, gb)"
      by blast
    from MixerBlock_init_Inr [OF this]
    show "epsilon (norm1 blk) = 1 / 10 ^ 6 \<and> epsilon (norm2 blk) = 1 / 10 ^ 6"
      by (auto dest!: LayerNorm_init_Inr)
  qed
  have 3: "case PatchEmbedding.norm (MlpMixer.patch_embed m) of
        Identity \<Rightarrow> \<not> patch_embed_norm a
      | Norm nl \<Rightarrow> patch_embed_norm a \<and> epsilon nl = 1 / 10 ^ 6"
    using PatchEmbedding_init_Inr [OF pe] LayerNorm_init_Inr [OF n0]
    by (auto split: if_splits)
  from 1 2 3 show ?thesis by blast
qed

theorem layer_norm_epsilon_witness:
  "\<exists>m g'. MlpMixer_init test_framework (small_args\<lparr>patch_embed_norm := True\<rparr>) () = Inr (m, g') \<and>
     length (mixer_layers m) = 2 \<and>
     epsilon (MlpMixer.norm m) = 1 / 10 ^ 6 \<and>
     (\<forall>blk\<in>set (mixer_layers m).
        epsilon (norm1 blk) = 1 / 10 ^ 6 \<and> epsilon (norm2 blk) = 1 / 10 ^ 6) \<and>
     (\<exists>nl. PatchEmbedding.norm (MlpMixer.patch_embed m) = Norm nl \<and> epsilon nl = 1 / 10 ^ 6)"
proof -
  let ?a = "small_args\<lparr>patch_embed_norm := True\<rparr>"
  have "\<exists>m g'. MlpMixer_init test_framework ?a () = Inr (m, g')"
    by (rule MlpMixer_init_ok) (simp_all add: small_args_def MlpMixer_defaults_def py_int_def)
  then obtain m g' where init: "MlpMixer_init test_framework ?a () = Inr (m, g')"
    by blast
  from MlpMixer_init_Inr [OF init] obtain g1 g2 n where
    "mixer_blocks test_framework 2 n (1 / 2, 4) 0 0 2 g1 = Inr (mixer_layers m, g2)"
    by (auto simp: small_args_def MlpMixer_defaults_def)
  from mixer_blocks_Inr [OF this] have len: "length (mixer_layers m) = 2"
    by simp
  have pn: "patch_embed_norm ?a" by simp
  from layer_norm_epsilon [OF init] pn
  have "epsilon (MlpMixer.norm m) = 1 / 10 ^ 6 \<and>
     (\<forall>blk\<in>set (mixer_layers m).
        epsilon (norm1 blk) = 1 / 10 ^ 6 \<and> epsilon (norm2 blk) = 1 / 10 ^ 6) \<and>
     (\<exists>nl. PatchEmbedding.norm (MlpMixer.patch_embed m) = Norm nl \<and> epsilon nl = 1 / 10 ^ 6)"
    by (cases "PatchEmbedding.norm (MlpMixer.patch_embed m)") simp_all
  with init len show ?thesis by blast
qed

subsection \<open>Initialisers of the linear layers\<close>

text \<open>
  C4 as stated (every linear layer of the model, the classification head included, has
  Xavier-uniform weights and a \<open>Normal(std=1e-6)\<close> bias) fails: the head is built by
  \<open>nn.Linear(embed_dim, num_classes)\<close> with no attributes, so its bias has the framework's
  default initialiser, the constant zero.
\<close>

theorem head_initializer_counterexample:
  "\<not> (\<forall>m g'. MlpMixer_init test_framework small_args () = Inr (m, g') \<longrightarrow>
         (\<forall>l\<in>set (linear_layers m). xavier_normal_init l))"
proof
  assume all: "\<forall>m g'. MlpMixer_init test_framework small_args () = Inr (m, g') \<longrightarrow>
         (\<forall>l\<in>set (linear_layers m). xavier_normal_init l)"
  obtain m g' where init: "MlpMixer_init test_framework small_args () = Inr (m, g')"
    using small_args_ok [of test_framework "()"] by blast
  with all have "xavier_normal_init (head m)"
    by (simp add: linear_layers_def)
  moreover from MlpMixer_init_Inr [OF init] have "bias_attr (head m) = None"
    by (auto dest!: Linear_init_Inr)
  ultimately show False
    by (simp add: xavier_normal_init_def bias_initializer_def)
qed

text \<open>
  C4, amended. In a constructed model the two linear layers of every token-mixing
  \<open>Mlp\<close> and of every channel-mixing \<open>Mlp\<close> carry the attributes of \<open>Mlp._init_weights\<close>:
  Xavier-uniform weight, \<open>Normal(std=1e-6)\<close> bias. The classification head carries no
  attribute: its weight has the framework's default (Xavier-uniform) and its bias the
  default constant zero.
\<close>

theorem linear_initializers:
  "MlpMixer_init env a g = Inr (m, g') \<Longrightarrow>
     (\<forall>blk\<in>set (mixer_layers m).
        \<forall>l\<in>set [fc1 (mlp_tokens blk), fc2 (mlp_tokens blk),
                 fc1 (mlp_channels blk), fc2 (mlp_channels blk)].
          weight_attr l = Some \<lparr>initializer = XavierUniform\<rparr> \<and>
          bias_attr l = Some \<lparr>initializer = Normal 0 (1 / 10 ^ 6)\<rparr> \<and>
          xavier_normal_init l) \<and>
     weight_attr (head m) = None \<and> bias_attr (head m) = None \<and>
     weight_initializer (weight_attr (head m)) = XavierUniform \<and>
     bias_initializer (bias_attr (head m)) = Constant 0"
proof -
  assume init: "MlpMixer_init env a g = Inr (m, g')"
  from MlpMixer_init_Inr [OF init] obtain g1 g2 where
    bl: "mixer_blocks env (MlpMixer_args.embed_dim a) (num_patches (MlpMixer.patch_embed m))
         (mlp_ratio a) (MlpMixer_args.dropout a) (droppath a) (nat (num_mixer_layers a)) g1
         = Inr (mixer_layers m, g2)" and
    hd: "Linear_init env (MlpMixer_args.embed_dim a) (MlpMixer_args.num_classes a) None None g2
         = Inr (head m, g')"
    by blast
  have mlp: "weight_attr (fc1 mm) = Some \<lparr>initializer = XavierUniform\<rparr> \<and>
             bias_attr (fc1 mm) = Some \<lparr>initializer = Normal 0 (1 / 10 ^ 6)\<rparr> \<and>
             xavier_normal_init (fc1 mm) \<and>
             weight_attr (fc2 mm) = Some \<lparr>initializer = XavierUniform\<rparr> \<and>
             bias_attr (fc2 mm) = Some \<lparr>initializer = Normal 0 (1 / 10 ^ 6)\<rparr> \<and>
             xavier_normal_init (fc2 mm)"
    if "Mlp_init env i h dr ga = Inr (mm, gb)" for mm i h dr ga gb
    using Mlp_init_Inr [OF that]
    by (auto dest!: Linear_init_Inr
        simp: Mlp_init_weights_def xavier_normal_init_def weight_initializer_def
          bias_initializer_def)
  have blocks: "\<forall>blk\<in>set (mixer_layers m).
        \<forall>l\<in>set [fc1 (mlp_tokens blk), fc2 (mlp_tokens blk),
                 fc1 (mlp_channels blk), fc2 (mlp_channels blk)].
          weight_attr l = Some \<lparr>initializer = XavierUniform\<rparr> \<and>
          bias_attr l = Some \<lparr>initializer = Normal 0 (1 / 10 ^ 6)\<rparr> \<and>
          xavier_normal_init l"
  proof
    fix blk assume "blk \<in> set (mixer_layers m)"
    with mixer_blocks_Inr [OF bl] obtain ga gb where
      "MixerBlock_init env (MlpMixer_args.embed_dim a) (num_patches (MlpMixer.patch_embed m))
         (mlp_ratio a) (MlpMixer_args.dropout a) (droppath a) ga = Inr (blk, gb)"
      by blast
    from MixerBlock_init_Inr [OF this] obtain gc i1 h1 i2 h2 dr where
      "Mlp_init env i1 h1 dr ga = Inr (mlp_tokens blk, gc)"
      "Mlp_init env i2 h2 dr gc = Inr (mlp_channels blk, gb)"
      by blast
    from mlp [OF this(1)] mlp [OF this(2)]
    show "\<forall>l\<in>set [fc1 (mlp_tokens blk), fc2 (mlp_tokens blk),
                 fc1 (mlp_channels blk), fc2 (mlp_channels blk)].
          weight_attr l = Some \<lparr>initializer = XavierUniform\<rparr> \<and>
          bias_attr l = Some \<lparr>initializer = Normal 0 (1 / 10 ^ 6)\<rparr> \<and>
          xavier_normal_init l"
      by simp
  qed
  have hd_attr: "weight_attr (head m) = None \<and> bias_attr (head m) = None"
    using Linear_init_Inr [OF hd] by simp
  then have "weight_initializer (weight_attr (head m)) = XavierUniform \<and>
     bias_initializer (bias_attr (head m)) = Constant 0"
    by (simp add: weight_initializer_def bias_initializer_def)
  with blocks hd_attr show ?thesis by blast
qed

theorem linear_initializers_witness:
  "\<exists>m g'. MlpMixer_init test_framework small_args () = Inr (m, g') \<and>
     length (mixer_layers m) = 2 \<and>
     (\<forall>blk\<in>set (mixer_layers m).
        xavier_normal_init (fc1 (mlp_tokens blk)) \<and> xavier_normal_init (fc2 (mlp_tokens blk)) \<and>
        xavier_normal_init (fc1 (mlp_channels blk)) \<and> xavier_normal_init (fc2 (mlp_channels blk))) \<and>
     bias_initializer (bias_attr (head m)) = Constant 0"
proof -
  obtain m g' where init: "MlpMixer_init test_framework small_args () = Inr (m, g')"
    using small_args_ok [of test_framework "()"] by blast
  from MlpMixer_init_Inr [OF init] obtain g1 g2 n where
    "mixer_blocks test_framework 2 n (1 / 2, 4) 0 0 2 g1 = Inr (mixer_layers m, g2)"
    by (auto simp: small_args_def MlpMixer_defaults_def)
  from mixer_blocks_Inr [OF this] have len: "length (mixer_layers m) = 2"
    by simp
  from linear_initializers [OF init] init len show ?thesis
    by auto
qed

subsection \<open>The stack of mixer blocks\<close>

lemma rbind_assoc: "rbind (rbind r f) h = rbind r (\<lambda>v. rbind (f v) h)"
  by (cases r) simp_all

lemma rbind_return: "rbind r (\<lambda>(y, g). Inr (y, g)) = r"
  by (cases r) simp_all

lemma Sequential_forward_append:
  "Sequential_forward env (xs @ ys) x g =
     rbind (Sequential_forward env xs x g) (\<lambda>(y, g). Sequential_forward env ys y g)"
proof (induction xs arbitrary: x g)
  case Nil
  then show ?case by simp
next
  case (Cons b xs)
  show ?case
    by (simp add: rbind_assoc Cons.IH split_def)
qed

lemma Sequential_forward_single:
  "Sequential_forward env [blk] x g = MixerBlock_forward env blk x g"
  by (cases "MixerBlock_forward env blk x g") auto

text \<open>
  C5. For every \<open>num_mixer_layers\<close> N \<open>\<ge>\<close> 0 the constructor builds exactly N mixer
  blocks (none for a negative N, as \<open>range\<close> is empty), each of them the result of the
  one constructor call \<open>MixerBlock(embed_dim, num_patches, mlp_ratio, dropout, droppath)\<close>
  with the same arguments; and the stack applies them one after the other: the first
  \<open>i + 1\<close> blocks are the first \<open>i\<close> blocks followed by block \<open>i\<close> on their output, and
  \<open>forward_features\<close> runs the whole list on the patch embedding.
\<close>

theorem mixer_layers_identical_sequential:
  "MlpMixer_init env a g = Inr (m, g') \<Longrightarrow>
     length (mixer_layers m) = nat (num_mixer_layers a) \<and>
     (\<forall>blk\<in>set (mixer_layers m). \<exists>g1 g2.
        MixerBlock_init env (MlpMixer_args.embed_dim a) (num_patches (MlpMixer.patch_embed m))
          (mlp_ratio a) (MlpMixer_args.dropout a) (droppath a) g1 = Inr (blk, g2)) \<and>
     Sequential_forward env' (take 0 (mixer_layers m)) x gr = Inr (x, gr) \<and>
     (\<forall>i<length (mixer_layers m).
        Sequential_forward env' (take (Suc i) (mixer_layers m)) x gr =
          rbind (Sequential_forward env' (take i (mixer_layers m)) x gr)
            (\<lambda>(y, gr'). MixerBlock_forward env' (mixer_layers m ! i) y gr')) \<and>
     forward_features env' m x0 gr =
       rbind (PatchEmbedding_forward (MlpMixer.patch_embed m) x0) (\<lambda>y0.
       rbind (Sequential_forward env' (take (length (mixer_layers m)) (mixer_layers m)) y0 gr)
         (\<lambda>(y, gr').
       rbind (LayerNorm_forward (MlpMixer.norm m) y) (\<lambda>z. Inr (mean_axis1 z, gr'))))"
proof -
  assume init: "MlpMixer_init env a g = Inr (m, g')"
  from MlpMixer_init_Inr [OF init] obtain g1 g2 where
    bl: "mixer_blocks env (MlpMixer_args.embed_dim a) (num_patches (MlpMixer.patch_embed m))
         (mlp_ratio a) (MlpMixer_args.dropout a) (droppath a) (nat (num_mixer_layers a)) g1
         = Inr (mixer_layers m, g2)"
    by blast
  note b = mixer_blocks_Inr [OF bl]
  have step: "\<forall>i<length (mixer_layers m).
        Sequential_forward env' (take (Suc i) (mixer_layers m)) x gr =
          rbind (Sequential_forward env' (take i (mixer_layers m)) x gr)
            (\<lambda>(y, gr'). MixerBlock_forward env' (mixer_layers m ! i) y gr')"
    by (simp add: take_Suc_conv_app_nth Sequential_forward_append Sequential_forward_single
        del: Sequential_forward.simps)
  have ff: "forward_features env' m x0 gr =
       rbind (PatchEmbedding_forward (MlpMixer.patch_embed m) x0) (\<lambda>y0.
       rbind (Sequential_forward env' (take (length (mixer_layers m)) (mixer_layers m)) y0 gr)
         (\<lambda>(y, gr').
       rbind (LayerNorm_forward (MlpMixer.norm m) y) (\<lambda>z. Inr (mean_axis1 z, gr'))))"
    by (simp add: forward_features_def Let_def)
  from b step ff show ?thesis by simp
qed

theorem mixer_layers_identical_sequential_witness:
  "\<exists>m g'. MlpMixer_init test_framework small_args () = Inr (m, g') \<and>
     length (mixer_layers m) = 2 \<and>
     (\<forall>blk\<in>set (mixer_layers m). \<exists>g1 g2.
        MixerBlock_init test_framework 2 4 (1 / 2, 4) 0 0 g1 = Inr (blk, g2)) \<and>
     Sequential_forward test_framework (take 2 (mixer_layers m)) [[[1, 2]]] () =
       rbind (Sequential_forward test_framework (take 1 (mixer_layers m)) [[[1, 2]]] ())
         (\<lambda>(y, gr'). MixerBlock_forward test_framework (mixer_layers m ! 1) y gr')"
proof -
  obtain m g' where init: "MlpMixer_init test_framework small_args () = Inr (m, g')"
    using small_args_ok [of test_framework "()"] by blast
  note t = mixer_layers_identical_sequential [OF init, of test_framework "[[[1, 2]]]" "()"]
  from MlpMixer_init_Inr [OF init] have np: "num_patches (MlpMixer.patch_embed m) = 4"
    by (auto dest!: PatchEmbedding_init_Inr simp: small_args_def MlpMixer_defaults_def)
  from t have len: "length (mixer_layers m) = 2"
    by (simp add: small_args_def MlpMixer_defaults_def)
  from t np have blocks: "\<forall>blk\<in>set (mixer_layers m). \<exists>g1 g2.
        MixerBlock_init test_framework 2 4 (1 / 2, 4) 0 0 g1 = Inr (blk, g2)"
    by (simp add: small_args_def MlpMixer_defaults_def)
  from t len have "Sequential_forward test_framework (take (Suc 1) (mixer_layers m)) [[[1, 2]]] () =
       rbind (Sequential_forward test_framework (take 1 (mixer_layers m)) [[[1, 2]]] ())
         (\<lambda>(y, gr'). MixerBlock_forward test_framework (mixer_layers m ! 1) y gr')"
    by (metis One_nat_def lessI numeral_2_eq_2)
  then have step: "Sequential_forward test_framework (take 2 (mixer_layers m)) [[[1, 2]]] () =
       rbind (Sequential_forward test_framework (take 1 (mixer_layers m)) [[[1, 2]]] ())
         (\<lambda>(y, gr'). MixerBlock_forward test_framework (mixer_layers m ! 1) y gr')"
    by (simp add: numeral_2_eq_2)
  from init len blocks step show ?thesis by blast
qed

subsection \<open>The \<open>Mlp\<close> sub-layer\<close>

lemma Mlp_forward_eq_Inr:
  "Mlp_forward env m x g = Inr (y, g') \<longleftrightarrow>
     (\<exists>x1 x2 g1 x3.
        Linear_forward (fc1 m) x = Inr x1 \<and>
        Dropout_forward env (Mlp.dropout m) (activation_forward env (act m) x1) g = Inr (x2, g1) \<and>
        Linear_forward (fc2 m) x2 = Inr x3 \<and>
        Dropout_forward env (Mlp.dropout m) x3 g1 = Inr (y, g'))"
  by (auto simp: Mlp_forward_def rbind_eq_Inr Let_def)



subsection \<open>Shapes through the forward pass\<close>

lemma shape3_nth: "shape3 b n d x \<Longrightarrow> i < b \<Longrightarrow> shape2 n d (x ! i)"
  by (simp add: shape3_def)

lemma shape2_nth: "shape2 n d m \<Longrightarrow> i < n \<Longrightarrow> length (m ! i) = d"
  by (simp add: shape2_def)

lemma shape3_map_map:
  "shape3 b n d x \<Longrightarrow> (\<And>v. length v = d \<Longrightarrow> length (f v) = k) \<Longrightarrow>
     shape3 b n k (map (map f) x)"
  by (auto simp: shape3_def shape2_def)

lemma same_shape_shape3: "same_shape x y \<Longrightarrow> shape3 b n d x \<Longrightarrow> shape3 b n d y"
proof -
  assume ss: "same_shape x y" and sh: "shape3 b n d x"
  from ss have eq: "map (map length) x = map (map length) y"
    by (simp add: same_shape_def)
  then have len: "length y = length x"
    by (metis length_map)
  have "shape2 n d (y ! i)" if "i < length y" for i
  proof -
    from eq that len have e: "map length (x ! i) = map length (y ! i)"
      by (metis nth_map)
    from sh that len have s: "shape2 n d (x ! i)"
      by (simp add: shape3_def)
    from e have l: "length (y ! i) = length (x ! i)"
      by (metis length_map)
    have "length r = d" if "r \<in> set (y ! i)" for r
    proof -
      from that obtain j where j: "j < length (y ! i)" "r = y ! i ! j"
        by (auto simp: in_set_conv_nth)
      with e l have "length (x ! i ! j) = length r"
        by (metis nth_map)
      moreover from s j l have "length (x ! i ! j) = d"
        by (simp add: shape2_def)
      ultimately show ?thesis by simp
    qed
    with s l show ?thesis by (simp add: shape2_def)
  qed
  with sh len show ?thesis
    by (auto simp: shape3_def in_set_conv_nth)
qed

lemma shape2_iff: "shape2 n d m \<longleftrightarrow> length m = n \<and> (\<forall>i<n. length (m ! i) = d)"
  by (auto simp: shape2_def all_set_conv_all_nth)

lemma shape3_iff: "shape3 b n d x \<longleftrightarrow> length x = b \<and> (\<forall>s<b. shape2 n d (x ! s))"
  by (auto simp: shape3_def all_set_conv_all_nth)

lemma shape2_map_length: "shape2 n d m \<Longrightarrow> map length m = replicate n d"
  by (auto simp: shape2_iff intro!: nth_equalityI)

lemma shape3_map_length:
  "shape3 b n d x \<Longrightarrow> map (map length) x = replicate b (replicate n d)"
  by (auto simp: shape3_iff shape2_map_length intro!: nth_equalityI)

lemma shape3_same_shape: "shape3 b n d x \<Longrightarrow> shape3 b n d y \<Longrightarrow> same_shape x y"
  by (simp add: same_shape_def shape3_map_length)

lemma length_affine: "length (affine w b v) = length b"
  by (simp add: affine_def)

lemma length_layer_norm_vec: "length (layer_norm_vec nl v) = length v"
  by (simp add: layer_norm_vec_def Let_def)

lemma Linear_forward_shape:
  assumes "in_features l = int d" "length (Linear.bias l) = k" "shape3 b n d x"
  shows "Linear_forward l x = Inr (map (map (linear_vec l)) x)"
    and "shape3 b n k (map (map (linear_vec l)) x)"
proof -
  from assms(1,3) show "Linear_forward l x = Inr (map (map (linear_vec l)) x)"
    by (auto simp: Linear_forward_def shape3_def shape2_def)
  from assms(2,3) show "shape3 b n k (map (map (linear_vec l)) x)"
    by (intro shape3_map_map [where d = d]) (simp_all add: linear_vec_def length_affine)
qed

lemma LayerNorm_forward_shape:
  assumes "normalized_shape nl = int d" "shape3 b n d x"
  shows "LayerNorm_forward nl x = Inr (map (map (layer_norm_vec nl)) x)"
    and "shape3 b n d (map (map (layer_norm_vec nl)) x)"
proof -
  from assms show "LayerNorm_forward nl x = Inr (map (map (layer_norm_vec nl)) x)"
    by (auto simp: LayerNorm_forward_def shape3_def shape2_def)
  from assms(2) show "shape3 b n d (map (map (layer_norm_vec nl)) x)"
    by (intro shape3_map_map [where d = d]) (simp_all add: length_layer_norm_vec)
qed

lemma activation_forward_shape:
  "shape3 b n d x \<Longrightarrow> shape3 b n d (activation_forward env a x)"
  by (cases a) (auto simp: activation_forward_def shape3_def shape2_def)

lemma transpose_mat_eq:
  "shape2 n d m \<Longrightarrow> 0 < n \<Longrightarrow>
     transpose_mat m = map (\<lambda>j. map (\<lambda>row. row ! j) m) [0..<d]"
  by (cases m) (simp_all add: transpose_mat_def shape2_def)

lemma transpose_mat_shape:
  "shape2 n d m \<Longrightarrow> 0 < n \<Longrightarrow> shape2 d n (transpose_mat m)"
  by (simp add: transpose_mat_eq) (simp add: shape2_def)

lemma transpose_mat_nth:
  "shape2 n d m \<Longrightarrow> i < n \<Longrightarrow> j < d \<Longrightarrow> transpose_mat m ! j ! i = m ! i ! j"
  by (subst transpose_mat_eq [where n = n and d = d]) (simp_all add: shape2_def)

lemma transpose021_shape:
  "shape3 b n d x \<Longrightarrow> 0 < n \<Longrightarrow> shape3 b d n (transpose021 x)"
  by (auto simp: shape3_def transpose021_def transpose_mat_shape)

lemma transpose021_nth:
  "shape3 b n d x \<Longrightarrow> s < b \<Longrightarrow> i < n \<Longrightarrow> j < d \<Longrightarrow>
     transpose021 x ! s ! j ! i = x ! s ! i ! j"
  using transpose_mat_nth [of n d "x ! s" i j]
  by (simp add: shape3_iff transpose021_def)

lemma add_shape:
  assumes "shape3 b n d x" "shape3 b n d y"
  shows "add x y = Inr (map2 (map2 (map2 (+))) x y)"
    and "shape3 b n d (map2 (map2 (map2 (+))) x y)"
proof -
  from assms show "add x y = Inr (map2 (map2 (map2 (+))) x y)"
    by (simp add: add_def shape3_same_shape)
  from assms show "shape3 b n d (map2 (map2 (map2 (+))) x y)"
    by (simp add: shape3_iff shape2_iff)
qed


lemma map2_commute:
  "(\<And>a b. f a b = f b a) \<Longrightarrow> map2 f xs ys = map2 f ys xs"
proof (induction xs arbitrary: ys)
  case Nil
  then show ?case by simp
next
  case (Cons a xs)
  then show ?case by (cases ys) simp_all
qed

lemma same_shape_commute: "same_shape x y = same_shape y x"
  by (auto simp: same_shape_def)

lemma add_commute: "add x y = add y x"
proof -
  have 1: "map2 (+) u v = map2 (+) v u" for u v :: "real list"
    by (rule map2_commute) simp
  have 2: "map2 (map2 (+)) u v = map2 (map2 (+)) v u" for u v :: "real list list"
    by (rule map2_commute) (rule 1)
  have 3: "map2 (map2 (map2 (+))) u v = map2 (map2 (map2 (+))) v u" for u v :: tensor3
    by (rule map2_commute) (rule 2)
  show ?thesis
    unfolding add_def same_shape_commute [of x y] 3 [of x y] ..
qed

lemma MixerBlock_forward_stages:
  "MixerBlock_forward env blk x g =
     rbind (token_mixing_stage env blk x g) (\<lambda>(x1, g2). channel_mixing_stage env blk x1 g2)"
  unfolding MixerBlock_forward_def token_mixing_stage_def channel_mixing_stage_def Let_def
  by (simp add: rbind_assoc split_def add_commute)
     

lemma shape_preservingD:
  assumes "shape_preserving f" "shape3 b n d x"
  obtains y g' where "f x g = Inr (y, g')" "shape3 b n d y"
proof -
  from assms(1) obtain y g' where "f x g = Inr (y, g')" "same_shape x y"
    unfolding shape_preserving_def by blast
  with assms(2) that show thesis
    by (blast intro: same_shape_shape3)
qed

lemma Mlp_forward_shape:
  assumes fc1: "in_features (fc1 m) = int d" "length (Linear.bias (fc1 m)) = k"
    and fc2: "in_features (fc2 m) = int k" "length (Linear.bias (fc2 m)) = d"
    and dr: "shape_preserving (dropout_fn env (p (Mlp.dropout m)))"
    and x: "shape3 b n d x"
  shows "\<exists>y g'. Mlp_forward env m x g = Inr (y, g') \<and> shape3 b n d y"
proof -
  let ?x1 = "map (map (linear_vec (fc1 m))) x"
  note l1 = Linear_forward_shape [OF fc1 x]
  have a: "shape3 b n k (activation_forward env (act m) ?x1)"
    by (rule activation_forward_shape) (rule l1(2))
  obtain x2 g1 where d1: "dropout_fn env (p (Mlp.dropout m)) (activation_forward env (act m) ?x1) g
      = Inr (x2, g1)" and s2: "shape3 b n k x2"
    using shape_preservingD [OF dr a] by blast
  note l2 = Linear_forward_shape [OF fc2 s2]
  obtain y g' where d2: "dropout_fn env (p (Mlp.dropout m)) (map (map (linear_vec (fc2 m))) x2) g1
      = Inr (y, g')" and sy: "shape3 b n d y"
    using shape_preservingD [OF dr l2(2)] by blast
  have "Mlp_forward env m x g = Inr (y, g')"
    unfolding Mlp_forward_eq_Inr Dropout_forward_def
    using l1(1) d1 l2(1) d2 by blast
  with sy show ?thesis by blast
qed

lemma Mlp_init_dims:
  assumes "Mlp_init env i h dr g = Inr (m, g')"
  shows "0 < i" "0 < h"
    "in_features (fc1 m) = i" "length (Linear.bias (fc1 m)) = nat h"
    "in_features (fc2 m) = h" "length (Linear.bias (fc2 m)) = nat i"
    "p (Mlp.dropout m) = dr"
  using Mlp_init_Inr [OF assms] by (auto dest!: Linear_init_Inr)

lemma MixerBlock_init_dims:
  assumes "MixerBlock_init env dm sl r dr dp g = Inr (blk, g')"
  shows "0 < dm" "0 < sl"
    "normalized_shape (norm1 blk) = dm" "normalized_shape (norm2 blk) = dm"
    "drop_prob (drop_path blk) = dp"
    "\<exists>h ga gb. Mlp_init env sl h dr ga = Inr (mlp_tokens blk, gb)"
    "\<exists>h ga gb. Mlp_init env dm h dr ga = Inr (mlp_channels blk, gb)"
proof -
  from MixerBlock_init_Inr [OF assms] obtain g1 where
    n1: "LayerNorm_init dm (1 / 10 ^ 6) = Inr (norm1 blk)" and
    mt: "Mlp_init env sl (py_int (fst r * real_of_int dm)) dr g = Inr (mlp_tokens blk, g1)" and
    dp: "drop_prob (drop_path blk) = dp" and
    n2: "LayerNorm_init dm (1 / 10 ^ 6) = Inr (norm2 blk)" and
    mc: "Mlp_init env dm (py_int (snd r * real_of_int dm)) dr g1 = Inr (mlp_channels blk, g')"
    by blast
  from LayerNorm_init_Inr [OF n1] show "0 < dm" "normalized_shape (norm1 blk) = dm"
    by simp_all
  from LayerNorm_init_Inr [OF n2] show "normalized_shape (norm2 blk) = dm"
    by simp
  from Mlp_init_dims(1) [OF mt] show "0 < sl" .
  from dp show "drop_prob (drop_path blk) = dp" .
  from mt show "\<exists>h ga gb. Mlp_init env sl h dr ga = Inr (mlp_tokens blk, gb)" by blast
  from mc show "\<exists>h ga gb. Mlp_init env dm h dr ga = Inr (mlp_channels blk, gb)" by blast
qed

lemma Mlp_init_forward_shape:
  assumes init: "Mlp_init env0 i h dr ga = Inr (m, gb)"
    and dr: "shape_preserving (dropout_fn env dr)"
    and x: "shape3 b n (nat i) x"
  shows "\<exists>y g'. Mlp_forward env m x g = Inr (y, g') \<and> shape3 b n (nat i) y"
proof -
  note d = Mlp_init_dims [OF init]
  show ?thesis
  proof (rule Mlp_forward_shape [where k = "nat h"])
    show "in_features (fc1 m) = int (nat i)" using d by simp
    show "length (Linear.bias (fc1 m)) = nat h" using d by simp
    show "in_features (fc2 m) = int (nat h)" using d by simp
    show "length (Linear.bias (fc2 m)) = nat i" using d by simp
    show "shape_preserving (dropout_fn env (p (Mlp.dropout m)))" using d dr by simp
    show "shape3 b n (nat i) x" by (rule x)
  qed
qed

lemma token_mixing_stage_shape:
  assumes init: "MixerBlock_init env0 dm sl r dr dp g0 = Inr (blk, g1)"
    and dr: "shape_preserving (dropout_fn env dr)"
    and dp: "shape_preserving (drop_path_fn env dp)"
    and x: "shape3 b (nat sl) (nat dm) x"
  shows "\<exists>y g'. token_mixing_stage env blk x g = Inr (y, g') \<and> shape3 b (nat sl) (nat dm) y"
proof -
  note d = MixerBlock_init_dims [OF init]
  from d obtain h ga gb where mt: "Mlp_init env0 sl h dr ga = Inr (mlp_tokens blk, gb)"
    by blast
  have pos: "0 < nat sl" "0 < nat dm" using d by simp_all
  let ?n1 = "map (map (layer_norm_vec (norm1 blk))) x"
  have ns: "normalized_shape (norm1 blk) = int (nat dm)" using d by simp
  note ln = LayerNorm_forward_shape [OF ns x]
  have t1: "shape3 b (nat dm) (nat sl) (transpose021 ?n1)"
    by (rule transpose021_shape [OF ln(2) pos(1)])
  obtain m1 ga' where mf: "Mlp_forward env (mlp_tokens blk) (transpose021 ?n1) g = Inr (m1, ga')"
    and ms: "shape3 b (nat dm) (nat sl) m1"
    using Mlp_init_forward_shape [OF mt dr t1] by blast
  have t2: "shape3 b (nat sl) (nat dm) (transpose021 m1)"
    by (rule transpose021_shape [OF ms pos(2)])
  obtain d1 gb' where df: "drop_path_fn env dp (transpose021 m1) ga' = Inr (d1, gb')"
    and ds: "shape3 b (nat sl) (nat dm) d1"
    using shape_preservingD [OF dp t2] by blast
  note ad = add_shape [OF x ds]
  have "token_mixing_stage env blk x g = Inr (map2 (map2 (map2 (+))) x d1, gb')"
    using ln(1) mf df ad(1) d(5)
    by (simp add: token_mixing_stage_def DropPath_forward_def)
  with ad(2) show ?thesis by blast
qed

lemma channel_mixing_stage_shape:
  assumes init: "MixerBlock_init env0 dm sl r dr dp g0 = Inr (blk, g1)"
    and dr: "shape_preserving (dropout_fn env dr)"
    and dp: "shape_preserving (drop_path_fn env dp)"
    and x: "shape3 b (nat sl) (nat dm) x"
  shows "\<exists>y g'. channel_mixing_stage env blk x g = Inr (y, g') \<and> shape3 b (nat sl) (nat dm) y"
proof -
  note d = MixerBlock_init_dims [OF init]
  from d obtain h ga gb where mc: "Mlp_init env0 dm h dr ga = Inr (mlp_channels blk, gb)"
    by blast
  let ?n2 = "map (map (layer_norm_vec (norm2 blk))) x"
  have ns: "normalized_shape (norm2 blk) = int (nat dm)" using d by simp
  note ln = LayerNorm_forward_shape [OF ns x]
  obtain m2 ga' where mf: "Mlp_forward env (mlp_channels blk) ?n2 g = Inr (m2, ga')"
    and ms: "shape3 b (nat sl) (nat dm) m2"
    using Mlp_init_forward_shape [OF mc dr ln(2)] by blast
  obtain d2 gb' where df: "drop_path_fn env dp m2 ga' = Inr (d2, gb')"
    and ds: "shape3 b (nat sl) (nat dm) d2"
    using shape_preservingD [OF dp ms] by blast
  note ad = add_shape [OF x ds]
  have "channel_mixing_stage env blk x g = Inr (map2 (map2 (map2 (+))) x d2, gb')"
    using ln(1) mf df ad(1) d(5)
    by (simp add: channel_mixing_stage_def DropPath_forward_def)
  with ad(2) show ?thesis by blast
qed

lemma MixerBlock_forward_shape:
  assumes init: "MixerBlock_init env0 dm sl r dr dp g0 = Inr (blk, g1)"
    and dr: "shape_preserving (dropout_fn env dr)"
    and dp: "shape_preserving (drop_path_fn env dp)"
    and x: "shape3 b (nat sl) (nat dm) x"
  shows "\<exists>y g'. MixerBlock_forward env blk x g = Inr (y, g') \<and> shape3 b (nat sl) (nat dm) y"
proof -
  obtain x1 ga where t: "token_mixing_stage env blk x g = Inr (x1, ga)"
    and s1: "shape3 b (nat sl) (nat dm) x1"
    using token_mixing_stage_shape [OF init dr dp x] by blast
  obtain y gb where c: "channel_mixing_stage env blk x1 ga = Inr (y, gb)"
    and sy: "shape3 b (nat sl) (nat dm) y"
    using channel_mixing_stage_shape [OF init dr dp s1] by blast
  have "MixerBlock_forward env blk x g = Inr (y, gb)"
    by (simp add: MixerBlock_forward_stages t c)
  with sy show ?thesis by blast
qed

lemma Sequential_forward_shape:
  assumes dr: "shape_preserving (dropout_fn env dr)"
    and dp: "shape_preserving (drop_path_fn env dp)"
  shows "(\<forall>blk\<in>set blks. \<exists>ga gb. MixerBlock_init env0 dm sl r dr dp ga = Inr (blk, gb)) \<Longrightarrow>
     shape3 b (nat sl) (nat dm) x \<Longrightarrow>
     \<exists>y g'. Sequential_forward env blks x g = Inr (y, g') \<and> shape3 b (nat sl) (nat dm) y"
proof (induction blks arbitrary: x g)
  case Nil
  then show ?case by simp
next
  case (Cons blk blks)
  from Cons.prems(1) obtain ga gb where
    init: "MixerBlock_init env0 dm sl r dr dp ga = Inr (blk, gb)"
    by auto
  obtain x1 g1 where f: "MixerBlock_forward env blk x g = Inr (x1, g1)"
    and s1: "shape3 b (nat sl) (nat dm) x1"
    using MixerBlock_forward_shape [OF init dr dp Cons.prems(2)] by blast
  from Cons.prems(1) have rest:
    "\<forall>blk\<in>set blks. \<exists>ga gb. MixerBlock_init env0 dm sl r dr dp ga = Inr (blk, gb)"
    by simp
  from Cons.IH [OF rest s1, of g1] f show ?case
    by simp
qed


lemma test_framework_shape_preserving:
  "shape_preserving (dropout_fn test_framework r)"
  "shape_preserving (drop_path_fn test_framework r)"
  by (simp_all add: test_framework_def shape_preserving_def same_shape_def)

subsection \<open>Shape preservation of the mixer blocks\<close>

text \<open>
  C8. A mixer block constructed for dimension \<open>dim\<close> and sequence length \<open>seq_len\<close>
  returns, on every input of shape \<open>[batch, seq_len, dim]\<close>, a tensor of the same shape
  (given that dropout and drop path return tensors of the shape of their input). Hence
  any list of blocks constructed with the same arguments can be composed, and in a
  constructed model the shape \<open>[batch, num_patches, embed_dim]\<close> holds after every number
  of blocks of the stack.
\<close>

theorem MixerBlock_forward_preserves_shape:
  "(MixerBlock_init env0 dm seq_len ratio dr dp g0 = Inr (blk, g1) \<and>
    shape_preserving (dropout_fn env dr) \<and> shape_preserving (drop_path_fn env dp) \<and>
    shape3 b (nat seq_len) (nat dm) x
    \<longrightarrow> (\<exists>y g'. MixerBlock_forward env blk x g = Inr (y, g') \<and>
                 shape3 b (nat seq_len) (nat dm) y)) \<and>
   ((\<forall>blk\<in>set blks. \<exists>ga gb. MixerBlock_init env0 dm seq_len ratio dr dp ga = Inr (blk, gb)) \<and>
    shape_preserving (dropout_fn env dr) \<and> shape_preserving (drop_path_fn env dp) \<and>
    shape3 b (nat seq_len) (nat dm) x
    \<longrightarrow> (\<exists>y g'. Sequential_forward env blks x g = Inr (y, g') \<and>
                 shape3 b (nat seq_len) (nat dm) y)) \<and>
   (MlpMixer_init env0 a g2 = Inr (m, g3) \<and>
    shape_preserving (dropout_fn env (MlpMixer_args.dropout a)) \<and>
    shape_preserving (drop_path_fn env (droppath a)) \<and>
    shape3 b (nat (num_patches (MlpMixer.patch_embed m))) (nat (MlpMixer.embed_dim m)) x
    \<longrightarrow> (\<forall>i\<le>length (mixer_layers m).
           \<exists>y g'. Sequential_forward env (take i (mixer_layers m)) x g = Inr (y, g') \<and>
             shape3 b (nat (num_patches (MlpMixer.patch_embed m))) (nat (MlpMixer.embed_dim m)) y))"
proof (intro conjI impI allI)
  assume "MixerBlock_init env0 dm seq_len ratio dr dp g0 = Inr (blk, g1) \<and>
    shape_preserving (dropout_fn env dr) \<and> shape_preserving (drop_path_fn env dp) \<and>
    shape3 b (nat seq_len) (nat dm) x"
  then have i: "MixerBlock_init env0 dm seq_len ratio dr dp g0 = Inr (blk, g1)"
    and d: "shape_preserving (dropout_fn env dr)"
    and p: "shape_preserving (drop_path_fn env dp)"
    and x: "shape3 b (nat seq_len) (nat dm) x"
    by simp_all
  show "\<exists>y g'. MixerBlock_forward env blk x g = Inr (y, g') \<and>
                 shape3 b (nat seq_len) (nat dm) y"
    by (rule MixerBlock_forward_shape [OF i d p x])
next
  assume "(\<forall>blk\<in>set blks. \<exists>ga gb. MixerBlock_init env0 dm seq_len ratio dr dp ga = Inr (blk, gb)) \<and>
    shape_preserving (dropout_fn env dr) \<and> shape_preserving (drop_path_fn env dp) \<and>
    shape3 b (nat seq_len) (nat dm) x"
  then have a: "\<forall>blk\<in>set blks. \<exists>ga gb. MixerBlock_init env0 dm seq_len ratio dr dp ga = Inr (blk, gb)"
    and d: "shape_preserving (dropout_fn env dr)"
    and p: "shape_preserving (drop_path_fn env dp)"
    and x: "shape3 b (nat seq_len) (nat dm) x"
    by simp_all
  show "\<exists>y g'. Sequential_forward env blks x g = Inr (y, g') \<and>
                 shape3 b (nat seq_len) (nat dm) y"
    by (rule Sequential_forward_shape [OF d p a x])
next
  fix i
  assume h: "MlpMixer_init env0 a g2 = Inr (m, g3) \<and>
    shape_preserving (dropout_fn env (MlpMixer_args.dropout a)) \<and>
    shape_preserving (drop_path_fn env (droppath a)) \<and>
    shape3 b (nat (num_patches (MlpMixer.patch_embed m))) (nat (MlpMixer.embed_dim m)) x"
    and i: "i \<le> length (mixer_layers m)"
  from h have init: "MlpMixer_init env0 a g2 = Inr (m, g3)" by simp
  from MlpMixer_init_Inr [OF init] obtain ga gb where
    bl: "mixer_blocks env0 (MlpMixer_args.embed_dim a) (num_patches (MlpMixer.patch_embed m))
         (mlp_ratio a) (MlpMixer_args.dropout a) (droppath a) (nat (num_mixer_layers a)) ga
         = Inr (mixer_layers m, gb)" and
    ed: "MlpMixer.embed_dim m = MlpMixer_args.embed_dim a"
    by blast
  from mixer_blocks_Inr [OF bl] have all:
    "\<forall>blk\<in>set (take i (mixer_layers m)). \<exists>ga gb.
       MixerBlock_init env0 (MlpMixer.embed_dim m) (num_patches (MlpMixer.patch_embed m))
         (mlp_ratio a) (MlpMixer_args.dropout a) (droppath a) ga = Inr (blk, gb)"
    unfolding ed by (blast dest: in_set_takeD)
  from h have d: "shape_preserving (dropout_fn env (MlpMixer_args.dropout a))"
    and p: "shape_preserving (drop_path_fn env (droppath a))"
    and x: "shape3 b (nat (num_patches (MlpMixer.patch_embed m))) (nat (MlpMixer.embed_dim m)) x"
    by simp_all
  show "\<exists>y g'. Sequential_forward env (take i (mixer_layers m)) x g = Inr (y, g') \<and>
             shape3 b (nat (num_patches (MlpMixer.patch_embed m))) (nat (MlpMixer.embed_dim m)) y"
    by (rule Sequential_forward_shape [OF d p all x])
qed

theorem MixerBlock_forward_preserves_shape_witness:
  "\<exists>blk g1 m g3.
     MixerBlock_init test_framework 2 4 (1 / 2, 4) 0 0 () = Inr (blk, g1) \<and>
     (\<exists>y g'. MixerBlock_forward test_framework blk [[[1, 2], [3, 4], [5, 6], [7, 8]]] ()
               = Inr (y, g') \<and> shape3 1 4 2 y) \<and>
     MlpMixer_init test_framework small_args () = Inr (m, g3) \<and>
     length (mixer_layers m) = 2 \<and>
     (\<exists>y g'. Sequential_forward test_framework (mixer_layers m)
                [[[1, 2], [3, 4], [5, 6], [7, 8]]] () = Inr (y, g') \<and> shape3 1 4 2 y)"
proof -
  let ?x = "[[[1, 2], [3, 4], [5, 6], [7, 8]]] :: tensor3"
  have x: "shape3 1 (nat 4) (nat 2) ?x"
    by (simp add: shape3_def shape2_def)
  have "\<exists>blk g'. MixerBlock_init test_framework 2 4 (1 / 2, 4) 0 0 () = Inr (blk, g')"
    by (rule MixerBlock_init_ok) (simp_all add: py_int_def)
  then obtain blk g1 where blk: "MixerBlock_init test_framework 2 4 (1 / 2, 4) 0 0 () = Inr (blk, g1)"
    by blast
  obtain m g3 where init: "MlpMixer_init test_framework small_args () = Inr (m, g3)"
    using small_args_ok [of test_framework "()"] by blast
  from MlpMixer_init_Inr [OF init] have np: "num_patches (MlpMixer.patch_embed m) = 4"
    and ed: "MlpMixer.embed_dim m = 2"
    by (auto dest!: PatchEmbedding_init_Inr simp: small_args_def MlpMixer_defaults_def)
  from MlpMixer_init_Inr [OF init] obtain ga gb n where
    "mixer_blocks test_framework 2 n (1 / 2, 4) 0 0 2 ga = Inr (mixer_layers m, gb)"
    by (auto simp: small_args_def MlpMixer_defaults_def)
  from mixer_blocks_Inr [OF this] have len: "length (mixer_layers m) = 2"
    by simp
  have dr: "MlpMixer_args.dropout small_args = 0" "droppath small_args = 0"
    by (simp_all add: small_args_def MlpMixer_defaults_def)
  note t = MixerBlock_forward_preserves_shape
    [where ?env0.0 = test_framework and dm = 2 and seq_len = 4 and ratio = "(1 / 2, 4)"
       and dr = 0 and dp = 0 and ?g0.0 = "()" and blk = blk and ?g1.0 = g1
       and env = test_framework and b = 1 and x = ?x and g = "()"
       and a = small_args and ?g2.0 = "()" and m = m and ?g3.0 = g3]
  from t [THEN conjunct1] blk x
  have 1: "\<exists>y g'. MixerBlock_forward test_framework blk ?x () = Inr (y, g') \<and> shape3 1 4 2 y"
    by (simp add: test_framework_shape_preserving)
  from t [THEN conjunct2, THEN conjunct2] init x np ed dr len
  have 2: "\<exists>y g'. Sequential_forward test_framework (mixer_layers m) ?x () = Inr (y, g') \<and>
       shape3 1 4 2 y"
    by (simp add: test_framework_shape_preserving) (metis order_refl take_all)
  from blk 1 init len 2 show ?thesis by blast
qed




subsection \<open>The two stages of a mixer block\<close>

lemma token_mixing_stage_eq_Inr:
  "token_mixing_stage env blk x g = Inr (x1, g2) \<longleftrightarrow>
     (\<exists>n1 m1 g1 d1.
        LayerNorm_forward (norm1 blk) x = Inr n1 \<and>
        Mlp_forward env (mlp_tokens blk) (transpose021 n1) g = Inr (m1, g1) \<and>
        drop_path_fn env (drop_prob (drop_path blk)) (transpose021 m1) g1 = Inr (d1, g2) \<and>
        add x d1 = Inr x1)"
  by (auto simp: token_mixing_stage_def rbind_eq_Inr DropPath_forward_def)

lemma channel_mixing_stage_eq_Inr:
  "channel_mixing_stage env blk x1 g2 = Inr (y, g4) \<longleftrightarrow>
     (\<exists>n2 m2 g3 d2.
        LayerNorm_forward (norm2 blk) x1 = Inr n2 \<and>
        Mlp_forward env (mlp_channels blk) n2 g2 = Inr (m2, g3) \<and>
        drop_path_fn env (drop_prob (drop_path blk)) m2 g3 = Inr (d2, g4) \<and>
        add x1 d2 = Inr y)"
  by (auto simp: channel_mixing_stage_def rbind_eq_Inr DropPath_forward_def)

lemma Linear_forward_Inr:
  "Linear_forward l x = Inr h \<Longrightarrow> h = map (map (linear_vec l)) x"
  by (auto simp: Linear_forward_def split: if_splits)

lemma transpose021_row:
  assumes "shape3 b n d t" "0 < n" "s < b" "c < d"
  shows "transpose021 t ! s ! c = map (\<lambda>i. t ! s ! i ! c) [0..<n]"
proof -
  from assms(1,3) have m: "shape2 n d (t ! s)" and len: "length t = b"
    by (simp_all add: shape3_iff)
  have "transpose021 t ! s ! c = map (\<lambda>row. row ! c) (t ! s)"
    using assms(3,4) len by (simp add: transpose021_def transpose_mat_eq [OF m assms(2)])
  also have "\<dots> = map (\<lambda>i. t ! s ! i ! c) [0..<n]"
    using m by (auto simp: shape2_iff intro!: nth_equalityI)
  finally show ?thesis .
qed

lemma Linear_forward_token_axis:
  assumes "shape3 b n d t" "0 < n" "Linear_forward l (transpose021 t) = Inr h"
    "s < b" "c < d"
  shows "h ! s ! c = linear_vec l (map (\<lambda>i. t ! s ! i ! c) [0..<n])"
proof -
  from transpose021_shape [OF assms(1,2)] have sh: "shape3 b d n (transpose021 t)" .
  then have "length (transpose021 t) = b" "length (transpose021 t ! s) = d"
    using assms(4) by (simp_all add: shape3_iff shape2_iff)
  with Linear_forward_Inr [OF assms(3)] assms(4,5)
  have "h ! s ! c = linear_vec l (transpose021 t ! s ! c)"
    by simp
  with transpose021_row [OF assms(1,2,4,5)] show ?thesis by simp
qed

lemma Linear_forward_channel_axis:
  assumes "shape3 b n d t" "Linear_forward l t = Inr h" "s < b" "i < n"
  shows "h ! s ! i = linear_vec l (t ! s ! i)"
proof -
  from assms(1,3) have "length t = b" "length (t ! s) = n"
    by (simp_all add: shape3_iff shape2_iff)
  with Linear_forward_Inr [OF assms(2)] assms(3,4) show ?thesis by simp
qed

lemma add_nth:
  assumes "shape3 b n d x" "shape3 b n d y" "add x y = Inr z" "s < b" "i < n" "j < d"
  shows "z ! s ! i ! j = x ! s ! i ! j + y ! s ! i ! j"
proof -
  from add_shape(1) [OF assms(1,2)] assms(3) have z: "z = map2 (map2 (map2 (+))) x y"
    by simp
  from assms(1,2,4,5) have l: "length x = b" "length y = b"
    "length (x ! s) = n" "length (y ! s) = n"
    "length (x ! s ! i) = d" "length (y ! s ! i) = d"
    by (simp_all add: shape3_iff shape2_iff)
  show ?thesis
    unfolding z using l assms(4,5,6) by simp
qed

text \<open>
  C1. \<open>MixerBlock.forward\<close> is the two-stage computation: first
  \<open>x1 = x + DropPath(transpose(mlp_tokens(transpose(norm1(x)))))\<close>, then
  \<open>x1 + DropPath(mlp_channels(norm2(x1)))\<close>, in this order (results, errors and the
  generator state included), with exactly these two residual additions. The transpose
  swaps the patch-sequence axis and the channel axis, so that the linear layers of
  \<open>mlp_tokens\<close> act, for every sample and channel, on the vector of that channel's values
  over all patches; those of \<open>mlp_channels\<close> act on the channel vector of every patch; the
  additions are elementwise.
\<close>

theorem MixerBlock_forward_two_stage:
  "MixerBlock_forward env blk x g =
     rbind (token_mixing_stage env blk x g) (\<lambda>(x1, g2). channel_mixing_stage env blk x1 g2) \<and>
   (token_mixing_stage env blk x g = Inr (x1, g2) \<longleftrightarrow>
     (\<exists>n1 m1 g1 d1.
        LayerNorm_forward (norm1 blk) x = Inr n1 \<and>
        Mlp_forward env (mlp_tokens blk) (transpose021 n1) g = Inr (m1, g1) \<and>
        drop_path_fn env (drop_prob (drop_path blk)) (transpose021 m1) g1 = Inr (d1, g2) \<and>
        add x d1 = Inr x1)) \<and>
   (channel_mixing_stage env blk x1 g2 = Inr (y, g4) \<longleftrightarrow>
     (\<exists>n2 m2 g3 d2.
        LayerNorm_forward (norm2 blk) x1 = Inr n2 \<and>
        Mlp_forward env (mlp_channels blk) n2 g2 = Inr (m2, g3) \<and>
        drop_path_fn env (drop_prob (drop_path blk)) m2 g3 = Inr (d2, g4) \<and>
        add x1 d2 = Inr y)) \<and>
   (shape3 b n d t \<and> 0 < n \<longrightarrow>
      shape3 b d n (transpose021 t) \<and>
      (\<forall>s<b. \<forall>i<n. \<forall>c<d. transpose021 t ! s ! c ! i = t ! s ! i ! c)) \<and>
   (shape3 b n d t \<and> 0 < n \<and> Linear_forward (fc1 (mlp_tokens blk)) (transpose021 t) = Inr h1 \<longrightarrow>
      (\<forall>s<b. \<forall>c<d. h1 ! s ! c = linear_vec (fc1 (mlp_tokens blk)) (map (\<lambda>i. t ! s ! i ! c) [0..<n]))) \<and>
   (shape3 b n d t \<and> Linear_forward (fc1 (mlp_channels blk)) t = Inr h2 \<longrightarrow>
      (\<forall>s<b. \<forall>i<n. h2 ! s ! i = linear_vec (fc1 (mlp_channels blk)) (t ! s ! i))) \<and>
   (shape3 b n d t \<and> shape3 b n d u \<and> add t u = Inr z \<longrightarrow>
      (\<forall>s<b. \<forall>i<n. \<forall>c<d. z ! s ! i ! c = t ! s ! i ! c + u ! s ! i ! c))"
proof (intro conjI impI allI)
  show "MixerBlock_forward env blk x g =
     rbind (token_mixing_stage env blk x g) (\<lambda>(x1, g2). channel_mixing_stage env blk x1 g2)"
    by (rule MixerBlock_forward_stages)
  show "token_mixing_stage env blk x g = Inr (x1, g2) \<longleftrightarrow>
     (\<exists>n1 m1 g1 d1.
        LayerNorm_forward (norm1 blk) x = Inr n1 \<and>
        Mlp_forward env (mlp_tokens blk) (transpose021 n1) g = Inr (m1, g1) \<and>
        drop_path_fn env (drop_prob (drop_path blk)) (transpose021 m1) g1 = Inr (d1, g2) \<and>
        add x d1 = Inr x1)"
    by (rule token_mixing_stage_eq_Inr)
  show "channel_mixing_stage env blk x1 g2 = Inr (y, g4) \<longleftrightarrow>
     (\<exists>n2 m2 g3 d2.
        LayerNorm_forward (norm2 blk) x1 = Inr n2 \<and>
        Mlp_forward env (mlp_channels blk) n2 g2 = Inr (m2, g3) \<and>
        drop_path_fn env (drop_prob (drop_path blk)) m2 g3 = Inr (d2, g4) \<and>
        add x1 d2 = Inr y)"
    by (rule channel_mixing_stage_eq_Inr)
next
  assume "shape3 b n d t \<and> 0 < n"
  then show "shape3 b d n (transpose021 t)"
    by (simp add: transpose021_shape)
next
  fix s i c
  assume "shape3 b n d t \<and> 0 < n" "s < b" "i < n" "c < d"
  then show "transpose021 t ! s ! c ! i = t ! s ! i ! c"
    by (simp add: transpose021_nth)
next
  fix s c
  assume a: "shape3 b n d t \<and> 0 < n \<and>
    Linear_forward (fc1 (mlp_tokens blk)) (transpose021 t) = Inr h1" and s: "s < b" "c < d"
  from a have 1: "shape3 b n d t" and 2: "0 < n"
    and 3: "Linear_forward (fc1 (mlp_tokens blk)) (transpose021 t) = Inr h1"
    by simp_all
  show "h1 ! s ! c = linear_vec (fc1 (mlp_tokens blk)) (map (\<lambda>i. t ! s ! i ! c) [0..<n])"
    by (rule Linear_forward_token_axis [OF 1 2 3 s])
next
  fix s i
  assume a: "shape3 b n d t \<and> Linear_forward (fc1 (mlp_channels blk)) t = Inr h2"
    and s: "s < b" "i < n"
  from a have 1: "shape3 b n d t" and 2: "Linear_forward (fc1 (mlp_channels blk)) t = Inr h2"
    by simp_all
  show "h2 ! s ! i = linear_vec (fc1 (mlp_channels blk)) (t ! s ! i)"
    by (rule Linear_forward_channel_axis [OF 1 2 s])
next
  fix s i c
  assume a: "shape3 b n d t \<and> shape3 b n d u \<and> add t u = Inr z"
    and s: "s < b" "i < n" "c < d"
  from a have 1: "shape3 b n d t" and 2: "shape3 b n d u" and 3: "add t u = Inr z"
    by simp_all
  show "z ! s ! i ! c = t ! s ! i ! c + u ! s ! i ! c"
    by (rule add_nth [OF 1 2 3 s])
qed


theorem MixerBlock_forward_two_stage_witness:
  "\<exists>blk g1 x1 g2 y g4 h1 h2 z.
     MixerBlock_init test_framework 2 4 (1 / 2, 4) 0 0 () = Inr (blk, g1) \<and>
     token_mixing_stage test_framework blk [[[1, 2], [3, 4], [5, 6], [7, 8]]] () = Inr (x1, g2) \<and>
     channel_mixing_stage test_framework blk x1 g2 = Inr (y, g4) \<and>
     MixerBlock_forward test_framework blk [[[1, 2], [3, 4], [5, 6], [7, 8]]] () = Inr (y, g4) \<and>
     (\<exists>n1 m1 ga d1.
        LayerNorm_forward (norm1 blk) [[[1, 2], [3, 4], [5, 6], [7, 8]]] = Inr n1 \<and>
        Mlp_forward test_framework (mlp_tokens blk) (transpose021 n1) () = Inr (m1, ga) \<and>
        drop_path_fn test_framework (drop_prob (drop_path blk)) (transpose021 m1) ga = Inr (d1, g2) \<and>
        add [[[1, 2], [3, 4], [5, 6], [7, 8]]] d1 = Inr x1) \<and>
     (\<exists>n2 m2 g3 d2.
        LayerNorm_forward (norm2 blk) x1 = Inr n2 \<and>
        Mlp_forward test_framework (mlp_channels blk) n2 g2 = Inr (m2, g3) \<and>
        drop_path_fn test_framework (drop_prob (drop_path blk)) m2 g3 = Inr (d2, g4) \<and>
        add x1 d2 = Inr y) \<and>
     transpose021 [[[1, 2], [3, 4], [5, 6], [7, 8]]] ! 0 ! 1 ! 3 = 8 \<and>
     Linear_forward (fc1 (mlp_tokens blk)) (transpose021 [[[1, 2], [3, 4], [5, 6], [7, 8]]]) = Inr h1 \<and>
     h1 ! 0 ! 1 = linear_vec (fc1 (mlp_tokens blk)) [2, 4, 6, 8] \<and>
     Linear_forward (fc1 (mlp_channels blk)) [[[1, 2], [3, 4], [5, 6], [7, 8]]] = Inr h2 \<and>
     h2 ! 0 ! 2 = linear_vec (fc1 (mlp_channels blk)) [5, 6] \<and>
     add [[[1, 2], [3, 4], [5, 6], [7, 8]]] [[[1, 2], [3, 4], [5, 6], [7, 8]]] = Inr z \<and>
     z ! 0 ! 3 ! 1 = 16"
proof -
  let ?x = "[[[1, 2], [3, 4], [5, 6], [7, 8]]] :: tensor3"
  have x: "shape3 1 (nat 4) (nat 2) ?x" and x': "shape3 1 4 2 ?x"
    by (simp_all add: shape3_def shape2_def)
  have "\<exists>blk g'. MixerBlock_init test_framework 2 4 (1 / 2, 4) 0 0 () = Inr (blk, g')"
    by (rule MixerBlock_init_ok) (simp_all add: py_int_def)
  then obtain blk g1 where blk: "MixerBlock_init test_framework 2 4 (1 / 2, 4) 0 0 () = Inr (blk, g1)"
    by blast
  note sp = test_framework_shape_preserving
  obtain x1 g2 where t: "token_mixing_stage test_framework blk ?x () = Inr (x1, g2)"
    and s1: "shape3 1 (nat 4) (nat 2) x1"
    using token_mixing_stage_shape [OF blk sp(1) sp(2) x, of "()"] by blast
  obtain y g4 where c: "channel_mixing_stage test_framework blk x1 g2 = Inr (y, g4)"
    using channel_mixing_stage_shape [OF blk sp(1) sp(2) s1, of g2] by blast
  have d: "in_features (fc1 (mlp_tokens blk)) = int 4" "in_features (fc1 (mlp_channels blk)) = int 2"
    using MixerBlock_init_Inr [OF blk] by (auto dest!: Mlp_init_Inr Linear_init_Inr)
  have xt: "shape3 1 2 4 (transpose021 ?x)"
    by (rule transpose021_shape [OF x']) simp
  obtain h1 where h1: "Linear_forward (fc1 (mlp_tokens blk)) (transpose021 ?x) = Inr h1"
    using Linear_forward_shape(1) [OF d(1) refl xt] by blast
  obtain h2 where h2: "Linear_forward (fc1 (mlp_channels blk)) ?x = Inr h2"
    using Linear_forward_shape(1) [OF d(2) refl x'] by blast
  obtain z where z: "add ?x ?x = Inr z"
    using add_shape(1) [OF x' x'] by blast
  note th = MixerBlock_forward_two_stage
    [where env = test_framework and blk = blk and x = ?x and g = "()" and ?x1.0 = x1
       and ?g2.0 = g2 and y = y and ?g4.0 = g4 and b = 1 and n = 4 and d = 2 and t = ?x
       and ?h1.0 = h1 and ?h2.0 = h2 and u = ?x and z = z]
  from th [THEN conjunct1] t c
  have 1: "MixerBlock_forward test_framework blk ?x () = Inr (y, g4)"
    by simp
  from th [THEN conjunct2, THEN conjunct1] t
  have 2: "\<exists>n1 m1 ga d1.
        LayerNorm_forward (norm1 blk) ?x = Inr n1 \<and>
        Mlp_forward test_framework (mlp_tokens blk) (transpose021 n1) () = Inr (m1, ga) \<and>
        drop_path_fn test_framework (drop_prob (drop_path blk)) (transpose021 m1) ga = Inr (d1, g2) \<and>
        add ?x d1 = Inr x1"
    by simp
  from th [THEN conjunct2, THEN conjunct2, THEN conjunct1] c
  have 3: "\<exists>n2 m2 g3 d2.
        LayerNorm_forward (norm2 blk) x1 = Inr n2 \<and>
        Mlp_forward test_framework (mlp_channels blk) n2 g2 = Inr (m2, g3) \<and>
        drop_path_fn test_framework (drop_prob (drop_path blk)) m2 g3 = Inr (d2, g4) \<and>
        add x1 d2 = Inr y"
    by simp
  from th [THEN conjunct2, THEN conjunct2, THEN conjunct2, THEN conjunct1] x'
  have 4: "transpose021 ?x ! 0 ! 1 ! 3 = 8"
    by simp
  from th [THEN conjunct2, THEN conjunct2, THEN conjunct2, THEN conjunct2, THEN conjunct1] x' h1
  have "h1 ! 0 ! 1 = linear_vec (fc1 (mlp_tokens blk)) (map (\<lambda>i. ?x ! 0 ! i ! 1) [0..<4])"
    by simp
  also have "map (\<lambda>i. ?x ! 0 ! i ! 1) [0..<4] = [2, 4, 6, 8]"
    by (simp add: upt_rec)
  finally have 5: "h1 ! 0 ! 1 = linear_vec (fc1 (mlp_tokens blk)) [2, 4, 6, 8]" .
  from th [THEN conjunct2, THEN conjunct2, THEN conjunct2, THEN conjunct2, THEN conjunct2,
      THEN conjunct1] x' h2
  have 6: "h2 ! 0 ! 2 = linear_vec (fc1 (mlp_channels blk)) [5, 6]"
    by simp
  from th [THEN conjunct2, THEN conjunct2, THEN conjunct2, THEN conjunct2, THEN conjunct2,
      THEN conjunct2] x' z
  have 7: "z ! 0 ! 3 ! 1 = 16"
    by simp
  from blk t c 1 2 3 4 h1 5 h2 6 z 7 show ?thesis by blast
qed


subsection \<open>The patch embedding: shapes and the number of patches\<close>


lemma shape3_hd:
  assumes "shape3 c h w img" "0 < c" "0 < h"
  shows "img \<noteq> []" "length (hd img) = h" "hd img \<noteq> []" "length (hd (hd img)) = w"
proof -
  from assms(1,2) show ne: "img \<noteq> []" by (auto simp: shape3_def)
  then have "hd img \<in> set img" by simp
  with assms(1) have s: "shape2 h w (hd img)" by (simp add: shape3_def)
  then show "length (hd img) = h" by (simp add: shape2_def)
  with assms(3) show ne2: "hd img \<noteq> []" by auto
  then have "hd (hd img) \<in> set (hd img)" by simp
  with s show "length (hd (hd img)) = w" by (simp add: shape2_def)
qed

lemma conv_input_ok_shape:
  assumes "Conv2D.in_channels cv = int c" "kernel_size cv = (int kh, int kw)"
    "shape3 c h w img" "0 < c" "0 < h" "kh \<le> h" "kw \<le> w"
  shows "conv_input_ok cv img"
  using assms shape3_hd [OF assms(3,4,5)]
  by (simp add: conv_input_ok_def shape3_def)

lemma conv2d_image_shape:
  assumes "kernel_size cv = (int kh, int kw)" "stride cv = (int sh, int sw)"
    "out_channels cv = int e" "shape3 c h w img" "0 < c" "0 < h"
  shows "conv2d_image cv img =
           map (\<lambda>oc. map (\<lambda>i. map (\<lambda>j. conv2d_at cv img oc i j) [0..<(w - kw) div sw + 1])
                          [0..<(h - kh) div sh + 1]) [0..<e]"
    and "shape3 e ((h - kh) div sh + 1) ((w - kw) div sw + 1) (conv2d_image cv img)"
proof -
  show eq: "conv2d_image cv img =
           map (\<lambda>oc. map (\<lambda>i. map (\<lambda>j. conv2d_at cv img oc i j) [0..<(w - kw) div sw + 1])
                          [0..<(h - kh) div sh + 1]) [0..<e]"
    using assms(1,2,3) shape3_hd [OF assms(4,5,6)]
    by (simp add: conv2d_image_def Let_def)
  show "shape3 e ((h - kh) div sh + 1) ((w - kw) div sw + 1) (conv2d_image cv img)"
    unfolding eq by (simp add: shape3_def shape2_def)
qed

lemma Conv2D_forward_shape:
  assumes "Conv2D.in_channels cv = int c" "kernel_size cv = (int kh, int kw)"
    "stride cv = (int sh, int sw)" "out_channels cv = int e"
    "shape4 b c h w x" "0 < c" "0 < h" "kh \<le> h" "kw \<le> w"
  shows "Conv2D_forward cv x = Inr (map (conv2d_image cv) x)"
    and "shape4 b e ((h - kh) div sh + 1) ((w - kw) div sw + 1) (map (conv2d_image cv) x)"
proof -
  have ok: "conv_input_ok cv img" if "img \<in> set x" for img
    using that assms(5) conv_input_ok_shape [OF assms(1,2) _ assms(6,7,8,9)]
    by (simp add: shape4_def)
  then show "Conv2D_forward cv x = Inr (map (conv2d_image cv) x)"
    by (simp add: Conv2D_forward_def)
  show "shape4 b e ((h - kh) div sh + 1) ((w - kw) div sw + 1) (map (conv2d_image cv) x)"
    using assms(5) conv2d_image_shape(2) [OF assms(2,3,4) _ assms(6,7)]
    by (simp add: shape4_def)
qed

lemma length_concat_shape2: "shape2 n d m \<Longrightarrow> length (concat m) = n * d"
proof -
  assume "shape2 n d m"
  then have "map length m = replicate n d"
    by (rule shape2_map_length)
  then show ?thesis
    by (simp add: length_concat sum_list_replicate)
qed

lemma flatten2_shape: "shape4 b e h w x \<Longrightarrow> shape3 b e (h * w) (flatten2 x)"
  by (auto simp: shape4_def shape3_def flatten2_def length_concat_shape2
      intro!: iffD2 [OF shape2_iff] simp: shape2_iff)

lemma norm_layer_forward_shape:
  assumes "case l of Identity \<Rightarrow> True | Norm nl \<Rightarrow> normalized_shape nl = int d"
    "shape3 b n d x"
  shows "\<exists>y. norm_layer_forward l x = Inr y \<and> shape3 b n d y"
proof (cases l)
  case Identity
  with assms(2) show ?thesis by (simp add: norm_layer_forward_def)
next
  case (Norm nl)
  with assms(1) have "normalized_shape nl = int d" by simp
  from LayerNorm_forward_shape [OF this assms(2)] Norm show ?thesis
    by (simp add: norm_layer_forward_def)
qed

lemma patch_div: "0 < k \<Longrightarrow> k \<le> h \<Longrightarrow> (h - k) div k + 1 = h div (k::nat)"
  by (simp add: le_div_geq)


lemma PatchEmbedding_init_conv:
  assumes "PatchEmbedding_init env isz ps ic ed nlo g = Inr (pe, g')"
  shows "0 < ps" "0 < ic" "0 < ed"
    "Conv2D.in_channels (PatchEmbedding.patch_embed pe) = int (nat ic)"
    "out_channels (PatchEmbedding.patch_embed pe) = int (nat ed)"
    "kernel_size (PatchEmbedding.patch_embed pe) = (int (nat ps), int (nat ps))"
    "stride (PatchEmbedding.patch_embed pe) = (int (nat ps), int (nat ps))"
    "shape4 (nat ed) (nat ic) (nat ps) (nat ps) (Conv2D.weight (PatchEmbedding.patch_embed pe))"
    "length (Conv2D.bias (PatchEmbedding.patch_embed pe)) = nat ed"
    "PatchEmbedding.norm pe = (case nlo of None \<Rightarrow> Identity | Some nl \<Rightarrow> Norm nl)"
    "num_patches pe = (isz div ps) * (isz div ps)"
proof -
  note pe = PatchEmbedding_init_Inr [OF assms]
  then have "Conv2D_init env ic ed (ps, ps) (ps, ps) g = Inr (PatchEmbedding.patch_embed pe, g')"
    by simp
  note cv = Conv2D_init_Inr [OF this]
  from cv show "0 < ps" "0 < ic" "0 < ed" by simp_all
  from cv show "Conv2D.in_channels (PatchEmbedding.patch_embed pe) = int (nat ic)"
    "out_channels (PatchEmbedding.patch_embed pe) = int (nat ed)"
    "kernel_size (PatchEmbedding.patch_embed pe) = (int (nat ps), int (nat ps))"
    "stride (PatchEmbedding.patch_embed pe) = (int (nat ps), int (nat ps))"
    by simp_all
  from cv show "shape4 (nat ed) (nat ic) (nat ps) (nat ps)
      (Conv2D.weight (PatchEmbedding.patch_embed pe))"
    "length (Conv2D.bias (PatchEmbedding.patch_embed pe)) = nat ed"
    by simp_all
  from pe show "PatchEmbedding.norm pe = (case nlo of None \<Rightarrow> Identity | Some nl \<Rightarrow> Norm nl)"
    "num_patches pe = (isz div ps) * (isz div ps)"
    by simp_all
qed

lemma PatchEmbedding_forward_shape:
  assumes init: "PatchEmbedding_init env isz ps ic ed nlo g = Inr (pe, g')"
    and nl: "case nlo of None \<Rightarrow> True | Some nl \<Rightarrow> normalized_shape nl = ed"
    and x: "shape4 b (nat ic) h w x"
    and sz: "nat ps \<le> h" "nat ps \<le> w"
  shows "\<exists>y. PatchEmbedding_forward pe x = Inr y \<and>
           shape3 b ((h div nat ps) * (w div nat ps)) (nat ed) y"
proof -
  note c = PatchEmbedding_init_conv [OF init]
  let ?cv = "PatchEmbedding.patch_embed pe" and ?k = "nat ps"
  have pos: "0 < ?k" "0 < nat ic" "0 < nat ed" "0 < h"
    using c(1,2,3) sz by simp_all
  note cf = Conv2D_forward_shape [OF c(4) c(6) c(7) c(5) x pos(2) pos(4) sz]
  have e: "(h - ?k) div ?k + 1 = h div ?k" "(w - ?k) div ?k + 1 = w div ?k"
    by (rule patch_div [OF pos(1) sz(1)], rule patch_div [OF pos(1) sz(2)])
  have s4: "shape4 b (nat ed) (h div ?k) (w div ?k) (map (conv2d_image ?cv) x)"
    using cf(2) unfolding e .
  have s3: "shape3 b ((h div ?k) * (w div ?k)) (nat ed)
      (transpose021 (flatten2 (map (conv2d_image ?cv) x)))"
    by (rule transpose021_shape [OF flatten2_shape [OF s4] pos(3)])
  have nl': "case PatchEmbedding.norm pe of Identity \<Rightarrow> True
             | Norm nl \<Rightarrow> normalized_shape nl = int (nat ed)"
    using nl c(3) c(10) by (cases nlo) simp_all
  from norm_layer_forward_shape [OF nl' s3] cf(1) show ?thesis
    by (simp add: PatchEmbedding_forward_def Let_def)
qed












subsection \<open>The forward pass of the model\<close>

lemma add_length: "add x y = Inr z \<Longrightarrow> length z = length x"
proof -
  assume a: "add x y = Inr z"
  then have ss: "same_shape x y" and z: "z = map2 (map2 (map2 (+))) x y"
    by (auto simp: add_def split: if_splits)
  from ss have "length (map (map length) x) = length (map (map length) y)"
    by (simp add: same_shape_def)
  then have "length x = length y" by simp
  with z show ?thesis by simp
qed

lemma MixerBlock_forward_length:
  assumes "MixerBlock_forward env blk x g = Inr (y, g')"
  shows "length y = length x"
proof -
  from assms obtain x1 g2 where t: "token_mixing_stage env blk x g = Inr (x1, g2)"
    and c: "channel_mixing_stage env blk x1 g2 = Inr (y, g')"
    by (auto simp: MixerBlock_forward_stages rbind_eq_Inr)
  from t obtain d1 where "add x d1 = Inr x1"
    unfolding token_mixing_stage_eq_Inr by blast
  then have 1: "length x1 = length x" by (rule add_length)
  from c obtain d2 where "add x1 d2 = Inr y"
    unfolding channel_mixing_stage_eq_Inr by blast
  then have "length y = length x1" by (rule add_length)
  with 1 show ?thesis by simp
qed

lemma Sequential_forward_length:
  "Sequential_forward env blks x g = Inr (y, g') \<Longrightarrow> length y = length x"
proof (induction blks arbitrary: x g)
  case Nil
  then show ?case by simp
next
  case (Cons blk blks)
  from Cons.prems obtain x1 g1 where f: "MixerBlock_forward env blk x g = Inr (x1, g1)"
    and r: "Sequential_forward env blks x1 g1 = Inr (y, g')"
    by (auto simp: rbind_eq_Inr)
  from Cons.IH [OF r] MixerBlock_forward_length [OF f] show ?case by simp
qed

lemma LayerNorm_forward_Inr:
  "LayerNorm_forward nl x = Inr y \<Longrightarrow> y = map (map (layer_norm_vec nl)) x"
  by (auto simp: LayerNorm_forward_def split: if_splits)

lemma norm_layer_forward_length: "norm_layer_forward l x = Inr y \<Longrightarrow> length y = length x"
  by (cases l) (auto simp: norm_layer_forward_def dest!: LayerNorm_forward_Inr)

lemma PatchEmbedding_forward_length:
  "PatchEmbedding_forward pe x = Inr y \<Longrightarrow> length y = length x"
  by (auto simp: PatchEmbedding_forward_def Let_def rbind_eq_Inr Conv2D_forward_def
      flatten2_def transpose021_def split: if_splits dest!: norm_layer_forward_length)

lemma Linear_forward2_Inr:
  "Linear_forward2 l u = Inr y \<Longrightarrow>
     y = map (linear_vec l) u \<and> (\<forall>v\<in>set u. int (length v) = in_features l)"
  by (auto simp: Linear_forward2_def split: if_splits)

lemma mean_axis1_shape:
  assumes "shape3 b k d t" "0 < k"
  shows "shape2 b d (mean_axis1 t)"
proof -
  have "length (transpose_mat (t ! i)) = d" if "i < b" for i
  proof -
    from assms(1) that have "shape2 k d (t ! i)" by (simp add: shape3_iff)
    from transpose_mat_shape [OF this assms(2)] show ?thesis by (simp add: shape2_def)
  qed
  with assms(1) show ?thesis
    by (simp add: mean_axis1_def shape3_iff shape2_iff)
qed

lemma mean_axis1_nth:
  assumes "shape3 b k d t" "0 < k" "i < b" "c < d"
  shows "mean_axis1 t ! i ! c = (\<Sum>j\<leftarrow>[0..<k]. t ! i ! j ! c) / real k"
proof -
  from assms(1,3) have m: "shape2 k d (t ! i)" and len: "length t = b"
    by (simp_all add: shape3_iff)
  have col: "map (\<lambda>row. row ! c) (t ! i) = map (\<lambda>j. t ! i ! j ! c) [0..<k]"
    using m by (auto simp: shape2_iff intro!: nth_equalityI)
  show ?thesis
    using assms(3,4) len
    by (simp add: mean_axis1_def transpose_mat_eq [OF m assms(2)] col)
qed

lemma MlpMixer_forward_eq_Inr:
  "MlpMixer_forward env m x g = Inr (y, g') \<longleftrightarrow>
     (\<exists>e s n.
        PatchEmbedding_forward (MlpMixer.patch_embed m) x = Inr e \<and>
        Sequential_forward env (mixer_layers m) e g = Inr (s, g') \<and>
        LayerNorm_forward (MlpMixer.norm m) s = Inr n \<and>
        Linear_forward2 (head m) (mean_axis1 n) = Inr y)"
  by (auto simp: MlpMixer_forward_def forward_features_def rbind_eq_Inr Let_def)

lemma MlpMixer_forward_output_shape:
  assumes init: "MlpMixer_init env0 a ga = Inr (m, gb)"
    and fw: "MlpMixer_forward env m x g = Inr (y, g')"
  shows "in_features (head m) = MlpMixer_args.embed_dim a"
    "out_features (head m) = MlpMixer_args.num_classes a"
    "shape2 (length x) (nat (MlpMixer.num_classes m)) y"
proof -
  from MlpMixer_init_Inr [OF init] obtain g2 where
    hd: "Linear_init env0 (MlpMixer_args.embed_dim a) (MlpMixer_args.num_classes a) None None g2
         = Inr (head m, gb)" and
    nc: "MlpMixer.num_classes m = MlpMixer_args.num_classes a"
    by blast
  note h = Linear_init_Inr [OF hd]
  from h show "in_features (head m) = MlpMixer_args.embed_dim a"
    "out_features (head m) = MlpMixer_args.num_classes a"
    by simp_all
  from fw obtain e s n where
    e: "PatchEmbedding_forward (MlpMixer.patch_embed m) x = Inr e" and
    s: "Sequential_forward env (mixer_layers m) e g = Inr (s, g')" and
    n: "LayerNorm_forward (MlpMixer.norm m) s = Inr n" and
    y: "Linear_forward2 (head m) (mean_axis1 n) = Inr y"
    unfolding MlpMixer_forward_eq_Inr by blast
  have "length y = length (mean_axis1 n)"
    using Linear_forward2_Inr [OF y] by simp
  also have "\<dots> = length n" by (simp add: mean_axis1_def)
  also have "\<dots> = length s" using LayerNorm_forward_Inr [OF n] by simp
  also have "\<dots> = length e" by (rule Sequential_forward_length [OF s])
  also have "\<dots> = length x" by (rule PatchEmbedding_forward_length [OF e])
  finally have len: "length y = length x" .
  have "length r = nat (MlpMixer.num_classes m)" if "r \<in> set y" for r
    using that Linear_forward2_Inr [OF y] h nc
    by (auto simp: linear_vec_def length_affine)
  with len show "shape2 (length x) (nat (MlpMixer.num_classes m)) y"
    by (simp add: shape2_def)
qed

lemma PatchEmbedding_forward_square:
  assumes init: "PatchEmbedding_init env isz ps ic ed nlo g = Inr (pe, g')"
    and nl: "case nlo of None \<Rightarrow> True | Some nl \<Rightarrow> normalized_shape nl = ed"
    and le: "ps \<le> isz"
    and x: "shape4 b (nat ic) (nat isz) (nat isz) x"
  shows "\<exists>y. PatchEmbedding_forward pe x = Inr y \<and> shape3 b (nat (num_patches pe)) (nat ed) y"
    and "0 < num_patches pe"
proof -
  note c = PatchEmbedding_init_conv [OF init]
  have sz: "nat ps \<le> nat isz" using le by simp
  have isz: "0 \<le> isz" using le c(1) by simp
  have d: "nat (isz div ps) = nat isz div nat ps"
    using isz c(1) by (simp add: nat_div_distrib)
  have dp: "0 < isz div ps"
    using le c(1) by (simp add: pos_imp_zdiv_pos_iff)
  have n: "nat (num_patches pe) = (nat isz div nat ps) * (nat isz div nat ps)"
    using c(11) dp by (simp add: nat_mult_distrib d)
  from PatchEmbedding_forward_shape [OF init nl x sz sz]
  show "\<exists>y. PatchEmbedding_forward pe x = Inr y \<and> shape3 b (nat (num_patches pe)) (nat ed) y"
    unfolding n .
  from c(11) dp show "0 < num_patches pe" by simp
qed

lemma MlpMixer_forward_ok:
  assumes init: "MlpMixer_init env0 a ga = Inr (m, gb)"
    and dr: "shape_preserving (dropout_fn env (MlpMixer_args.dropout a))"
    and dp: "shape_preserving (drop_path_fn env (droppath a))"
    and sz: "MlpMixer_args.patch_size a \<le> MlpMixer_args.image_size a"
    and x: "shape4 b (nat (MlpMixer_args.in_channels a)) (nat (MlpMixer_args.image_size a))
              (nat (MlpMixer_args.image_size a)) x"
  shows "\<exists>y g'. MlpMixer_forward env m x g = Inr (y, g')"
proof -
  let ?e = "MlpMixer_args.embed_dim a" and ?pe = "MlpMixer.patch_embed m"
  from MlpMixer_init_Inr [OF init] obtain nl0 g1 g2 where
    n0: "LayerNorm_init ?e (1 / 10 ^ 6) = Inr nl0" and
    pe: "PatchEmbedding_init env0 (MlpMixer_args.image_size a) (MlpMixer_args.patch_size a)
         (MlpMixer_args.in_channels a) ?e
         (if patch_embed_norm a then Some nl0 else None) ga = Inr (?pe, g1)" and
    bl: "mixer_blocks env0 ?e (num_patches ?pe)
         (mlp_ratio a) (MlpMixer_args.dropout a) (droppath a) (nat (num_mixer_layers a)) g1
         = Inr (mixer_layers m, g2)" and
    nf: "LayerNorm_init ?e (1 / 10 ^ 6) = Inr (MlpMixer.norm m)" and
    hd: "Linear_init env0 ?e (MlpMixer_args.num_classes a) None None g2 = Inr (head m, gb)"
    by blast
  have nl: "case (if patch_embed_norm a then Some nl0 else None) of None \<Rightarrow> True
            | Some nl \<Rightarrow> normalized_shape nl = ?e"
    using LayerNorm_init_Inr [OF n0] by simp
  note t = PatchEmbedding_forward_square [OF pe nl sz x]
  from t(1) obtain e where e: "PatchEmbedding_forward ?pe x = Inr e"
    and es: "shape3 b (nat (num_patches ?pe)) (nat ?e) e"
    by blast
  from mixer_blocks_Inr [OF bl] have all:
    "\<forall>blk\<in>set (mixer_layers m). \<exists>ga gb.
       MixerBlock_init env0 ?e (num_patches ?pe) (mlp_ratio a) (MlpMixer_args.dropout a)
         (droppath a) ga = Inr (blk, gb)"
    by blast
  obtain s g' where s: "Sequential_forward env (mixer_layers m) e g = Inr (s, g')"
    and ss: "shape3 b (nat (num_patches ?pe)) (nat ?e) s"
    using Sequential_forward_shape [OF dr dp all es, of g] by blast
  note f = LayerNorm_init_Inr [OF nf]
  have ns: "normalized_shape (MlpMixer.norm m) = int (nat ?e)" using f by simp
  note ln = LayerNorm_forward_shape [OF ns ss]
  let ?n = "map (map (layer_norm_vec (MlpMixer.norm m))) s"
  have np: "0 < nat (num_patches ?pe)" using t(2) by simp
  note h = Linear_init_Inr [OF hd]
  have "\<forall>v\<in>set (mean_axis1 ?n). int (length v) = in_features (head m)"
    using mean_axis1_shape [OF ln(2) np] h by (simp add: shape2_def)
  then have "Linear_forward2 (head m) (mean_axis1 ?n)
      = Inr (map (linear_vec (head m)) (mean_axis1 ?n))"
    by (simp add: Linear_forward2_def)
  with e s ln(1) show ?thesis
    unfolding MlpMixer_forward_eq_Inr by blast
qed

text \<open>
  C2. \<open>MlpMixer.forward(x)\<close> is \<open>head(mean(norm(mixer_layers(patch_embed(x))), axis=1))\<close>:
  it returns exactly when the patch embedding, the stack of mixer blocks, the final layer
  normalisation and the head return, in this order, the normalisation before the pooling.
  The pooling averages over the patch-sequence axis (axis 1); the head is one linear layer
  applied to each pooled vector of \<open>embed_dim\<close> entries; the result of a constructed model
  has shape \<open>[batch, num_classes]\<close>. A batch of images of the constructor's size is
  accepted (given that dropout and drop path return tensors of the shape of their input).
\<close>

theorem MlpMixer_forward_pipeline:
  "(MlpMixer_forward env m x g = Inr (y, g') \<longleftrightarrow>
     (\<exists>e s n.
        PatchEmbedding_forward (MlpMixer.patch_embed m) x = Inr e \<and>
        Sequential_forward env (mixer_layers m) e g = Inr (s, g') \<and>
        LayerNorm_forward (MlpMixer.norm m) s = Inr n \<and>
        Linear_forward2 (head m) (mean_axis1 n) = Inr y)) \<and>
   (shape3 b k d t \<and> 0 < k \<longrightarrow>
      shape2 b d (mean_axis1 t) \<and>
      (\<forall>i<b. \<forall>c<d. mean_axis1 t ! i ! c = (\<Sum>j\<leftarrow>[0..<k]. t ! i ! j ! c) / real k)) \<and>
   (Linear_forward2 (head m) u = Inr y \<longrightarrow>
      y = map (linear_vec (head m)) u \<and> (\<forall>v\<in>set u. int (length v) = in_features (head m))) \<and>
   (MlpMixer_init env0 a ga = Inr (m, gb) \<and> MlpMixer_forward env m x g = Inr (y, g') \<longrightarrow>
      in_features (head m) = MlpMixer_args.embed_dim a \<and>
      out_features (head m) = MlpMixer_args.num_classes a \<and>
      shape2 (length x) (nat (MlpMixer.num_classes m)) y) \<and>
   (MlpMixer_init env0 a ga = Inr (m, gb) \<and>
    shape_preserving (dropout_fn env (MlpMixer_args.dropout a)) \<and>
    shape_preserving (drop_path_fn env (droppath a)) \<and>
    MlpMixer_args.patch_size a \<le> MlpMixer_args.image_size a \<and>
    shape4 b' (nat (MlpMixer_args.in_channels a)) (nat (MlpMixer_args.image_size a))
      (nat (MlpMixer_args.image_size a)) x
    \<longrightarrow> (\<exists>y g'. MlpMixer_forward env m x g = Inr (y, g')))"
proof (intro conjI impI allI)
  show "MlpMixer_forward env m x g = Inr (y, g') \<longleftrightarrow>
     (\<exists>e s n.
        PatchEmbedding_forward (MlpMixer.patch_embed m) x = Inr e \<and>
        Sequential_forward env (mixer_layers m) e g = Inr (s, g') \<and>
        LayerNorm_forward (MlpMixer.norm m) s = Inr n \<and>
        Linear_forward2 (head m) (mean_axis1 n) = Inr y)"
    by (rule MlpMixer_forward_eq_Inr)
next
  assume "shape3 b k d t \<and> 0 < k"
  then have "shape3 b k d t" "0 < k" by simp_all
  then show "shape2 b d (mean_axis1 t)"
    by (rule mean_axis1_shape)
next
  fix i c
  assume "shape3 b k d t \<and> 0 < k" and ic: "i < b" "c < d"
  then have "shape3 b k d t" "0 < k" by simp_all
  then show "mean_axis1 t ! i ! c = (\<Sum>j\<leftarrow>[0..<k]. t ! i ! j ! c) / real k"
    using ic by (rule mean_axis1_nth)
next
  assume a: "Linear_forward2 (head m) u = Inr y"
  from Linear_forward2_Inr [OF a] show "y = map (linear_vec (head m)) u"
    and "\<forall>v\<in>set u. int (length v) = in_features (head m)"
    by simp_all
next
  assume a: "MlpMixer_init env0 a ga = Inr (m, gb) \<and> MlpMixer_forward env m x g = Inr (y, g')"
  then have i: "MlpMixer_init env0 a ga = Inr (m, gb)"
    and f: "MlpMixer_forward env m x g = Inr (y, g')"
    by simp_all
  from MlpMixer_forward_output_shape [OF i f]
  show "in_features (head m) = MlpMixer_args.embed_dim a"
    "out_features (head m) = MlpMixer_args.num_classes a"
    "shape2 (length x) (nat (MlpMixer.num_classes m)) y"
    by simp_all
next
  assume a: "MlpMixer_init env0 a ga = Inr (m, gb) \<and>
    shape_preserving (dropout_fn env (MlpMixer_args.dropout a)) \<and>
    shape_preserving (drop_path_fn env (droppath a)) \<and>
    MlpMixer_args.patch_size a \<le> MlpMixer_args.image_size a \<and>
    shape4 b' (nat (MlpMixer_args.in_channels a)) (nat (MlpMixer_args.image_size a))
      (nat (MlpMixer_args.image_size a)) x"
  then have i: "MlpMixer_init env0 a ga = Inr (m, gb)"
    and dr: "shape_preserving (dropout_fn env (MlpMixer_args.dropout a))"
    and dp: "shape_preserving (drop_path_fn env (droppath a))"
    and sz: "MlpMixer_args.patch_size a \<le> MlpMixer_args.image_size a"
    and x: "shape4 b' (nat (MlpMixer_args.in_channels a)) (nat (MlpMixer_args.image_size a))
      (nat (MlpMixer_args.image_size a)) x"
    by simp_all
  show "\<exists>y g'. MlpMixer_forward env m x g = Inr (y, g')"
    by (rule MlpMixer_forward_ok [OF i dr dp sz x])
qed


theorem MlpMixer_forward_pipeline_witness:
  "\<exists>m gb y g'.
     MlpMixer_init test_framework small_args () = Inr (m, gb) \<and>
     MlpMixer_forward test_framework m
       [[[[1, 2, 3, 4], [5, 6, 7, 8], [9, 10, 11, 12], [13, 14, 15, 16]]]] () = Inr (y, g') \<and>
     (\<exists>e s n.
        PatchEmbedding_forward (MlpMixer.patch_embed m)
          [[[[1, 2, 3, 4], [5, 6, 7, 8], [9, 10, 11, 12], [13, 14, 15, 16]]]] = Inr e \<and>
        Sequential_forward test_framework (mixer_layers m) e () = Inr (s, g') \<and>
        LayerNorm_forward (MlpMixer.norm m) s = Inr n \<and>
        Linear_forward2 (head m) (mean_axis1 n) = Inr y \<and>
        y = map (linear_vec (head m)) (mean_axis1 n)) \<and>
     shape2 1 3 y \<and>
     mean_axis1 [[[1, 2], [3, 4]]] ! 0 ! 1 = 3"
proof -
  let ?x = "[[[[1, 2, 3, 4], [5, 6, 7, 8], [9, 10, 11, 12], [13, 14, 15, 16]]]] :: tensor4"
  let ?t = "[[[1, 2], [3, 4]]] :: tensor3"
  obtain m gb where init: "MlpMixer_init test_framework small_args () = Inr (m, gb)"
    using small_args_ok [of test_framework "()"] by blast
  have a: "MlpMixer_args.dropout small_args = 0" "droppath small_args = 0"
    "MlpMixer_args.patch_size small_args = 2" "MlpMixer_args.image_size small_args = 4"
    "MlpMixer_args.in_channels small_args = 1" "MlpMixer_args.num_classes small_args = 3"
    by (simp_all add: small_args_def MlpMixer_defaults_def)
  have x: "shape4 1 (nat 1) (nat 4) (nat 4) ?x"
    by (simp add: shape4_def shape3_def shape2_def)
  have t: "shape3 1 2 2 ?t \<and> (0::nat) < 2"
    by (simp add: shape3_def shape2_def)
  note th0 = MlpMixer_forward_pipeline
    [where env = test_framework and m = m and x = ?x and g = "()" and ?env0.0 = test_framework
       and a = small_args and ga = "()" and gb = gb and b' = 1
       and b = 1 and k = 2 and d = 2 and t = ?t]
  have hyp: "MlpMixer_init test_framework small_args () = Inr (m, gb) \<and>
    shape_preserving (dropout_fn test_framework (MlpMixer_args.dropout small_args)) \<and>
    shape_preserving (drop_path_fn test_framework (droppath small_args)) \<and>
    MlpMixer_args.patch_size small_args \<le> MlpMixer_args.image_size small_args \<and>
    shape4 1 (nat (MlpMixer_args.in_channels small_args))
      (nat (MlpMixer_args.image_size small_args))
      (nat (MlpMixer_args.image_size small_args)) ?x"
    using init x by (simp add: a test_framework_shape_preserving)
  from th0 [THEN conjunct2, THEN conjunct2, THEN conjunct2, THEN conjunct2, THEN mp, OF hyp]
  obtain y g' where fw: "MlpMixer_forward test_framework m ?x () = Inr (y, g')"
    by blast
  note th1 = MlpMixer_forward_pipeline
    [where env = test_framework and m = m and x = ?x and g = "()" and ?env0.0 = test_framework
       and a = small_args and ga = "()" and gb = gb and y = y and g' = g'
       and b = 1 and k = 2 and d = 2 and t = ?t]
  from th1 [THEN conjunct1] fw obtain e s n where
    p: "PatchEmbedding_forward (MlpMixer.patch_embed m) ?x = Inr e"
       "Sequential_forward test_framework (mixer_layers m) e () = Inr (s, g')"
       "LayerNorm_forward (MlpMixer.norm m) s = Inr n"
       "Linear_forward2 (head m) (mean_axis1 n) = Inr y"
    by blast
  note th = MlpMixer_forward_pipeline
    [where env = test_framework and m = m and x = ?x and g = "()" and ?env0.0 = test_framework
       and a = small_args and ga = "()" and gb = gb and y = y and g' = g'
       and b = 1 and k = 2 and d = 2 and t = ?t and u = "mean_axis1 n"]
  from th [THEN conjunct2, THEN conjunct2, THEN conjunct1] p(4)
  have y: "y = map (linear_vec (head m)) (mean_axis1 n)"
    by simp
  from th [THEN conjunct2, THEN conjunct2, THEN conjunct2, THEN conjunct1] init fw
  have "shape2 (length ?x) (nat (MlpMixer.num_classes m)) y"
    and "out_features (head m) = 3"
    by (simp_all add: a)
  moreover from MlpMixer_init_Inr [OF init] have "MlpMixer.num_classes m = 3"
    by (auto simp: a)
  ultimately have sh: "shape2 1 3 y" by simp
  from th [THEN conjunct2, THEN conjunct1, THEN mp, OF t]
  have "mean_axis1 ?t ! 0 ! 1 = (\<Sum>j\<leftarrow>[0..<2]. ?t ! 0 ! j ! 1) / real 2"
    by simp
  also have "\<dots> = 3" by (simp add: upt_rec)
  finally have mean: "mean_axis1 ?t ! 0 ! 1 = 3" .
  from init fw p y sh mean show ?thesis by blast
qed


subsection \<open>The patch embedding as a projection of patches\<close>



















end
